theory Spec2Isabelle
  imports
    Complex_Main
    "HOL-Library.Char_ord"
    "HOL-Library.List_Lexorder"
    "HOL-Library.Multiset"
    "HOL-Library.Option_ord"
    "HOL-Library.Product_Lexorder"
    "HOL-Library.Sublist"
begin

section \<open>Data model\<close>

text \<open>
  The dashboard script \<^verbatim>\<open>app.py\<close> works on one pandas DataFrame read from a CSV
  source.  A row of that frame is a \<open>registro\<close>; every field is optional, \<open>None\<close>
  standing for a missing value (pandas' NaN / null).  The field types are the dtypes
  of the input interface: \<open>ano\<close> is numeric with whole values, \<open>usd\<close> is numeric,
  the other columns hold text.  Salaries are rationals here, so a mean is the
  arithmetic mean; the rounding of float64 is outside the model.

  A \<open>dataframe\<close> carries the list of its column labels beside its rows, because the
  script asks for column labels (\<^verbatim>\<open>"residencia" in df_filtrado.columns\<close>) and because
  selecting a column that the source file did not have raises \<^verbatim>\<open>KeyError\<close>.
\<close>

record registro =
  ano :: "int option"
  senioridade :: "string option"
  contrato :: "string option"
  tamanho_empresa :: "string option"
  cargo :: "string option"
  usd :: "rat option"
  remoto :: "string option"
  residencia_iso3 :: "string option"
  residencia :: "string option"

record dataframe =
  columns :: "string list"
  rows :: "registro list"

datatype error = KeyError | ValueError

text \<open>The four lists returned by the sidebar's multiselect widgets.\<close>

record selecao =
  anos_selecionados :: "int option list"
  senioridades_selecionadas :: "string option list"
  contratos_selecionados :: "string option list"
  tamanhos_selecionados :: "string option list"

section \<open>The pandas operations the script calls\<close>

text \<open>An exception raised by one call ends the whole expression.\<close>

definition ebind :: "error + 'a \<Rightarrow> ('a \<Rightarrow> error + 'b) \<Rightarrow> error + 'b" where
  "ebind m f = (case m of Inl e \<Rightarrow> Inl e | Inr x \<Rightarrow> f x)"

text \<open>\<^verbatim>\<open>df[nome]\<close>: the column as a list of cells, \<^verbatim>\<open>KeyError\<close> when the label is absent.\<close>

definition coluna :: "string \<Rightarrow> (registro \<Rightarrow> 'a) \<Rightarrow> dataframe \<Rightarrow> error + 'a list" where
  "coluna nome campo d =
     (if nome \<in> set (columns d) then Inr (map campo (rows d)) else Inl KeyError)"

text \<open>\<^verbatim>\<open>Series.isin(values)\<close>: elementwise membership; a missing cell matches only a
  missing entry of \<open>values\<close>.\<close>

definition isin :: "'a list \<Rightarrow> 'a list \<Rightarrow> bool list" where
  "isin s vals = map (\<lambda>v. v \<in> set vals) s"

text \<open>\<^verbatim>\<open>m1 & m2\<close> on two boolean columns of one frame.\<close>

definition mask_and :: "bool list \<Rightarrow> bool list \<Rightarrow> bool list" where
  "mask_and m1 m2 = map (\<lambda>(a, b). a \<and> b) (zip m1 m2)"

text \<open>\<^verbatim>\<open>df[mask]\<close>: the rows at the positions where the mask holds, labels unchanged.\<close>

definition bool_index :: "dataframe \<Rightarrow> bool list \<Rightarrow> dataframe" where
  "bool_index d m = d\<lparr>rows := map fst (filter snd (zip (rows d) m))\<rparr>"

text \<open>\<^verbatim>\<open>DataFrame.empty\<close>: some axis has length 0.\<close>

definition df_empty :: "dataframe \<Rightarrow> bool" where
  "df_empty d = (rows d = [] \<or> columns d = [])"

text \<open>\<^verbatim>\<open>Series.dropna()\<close>: the cells that are not missing, in order.\<close>

definition dropna :: "'a option list \<Rightarrow> 'a option list" where
  "dropna s = filter (\<lambda>v. v \<noteq> None) s"

text \<open>\<^verbatim>\<open>Series.unique()\<close>: the distinct values in order of first appearance.\<close>

fun unique :: "'a list \<Rightarrow> 'a list" where
  "unique [] = []"
| "unique (x # xs) = x # unique (filter (\<lambda>y. y \<noteq> x) xs)"

section \<open>Filtering (lines 44 to 49)\<close>

definition df_filtrado :: "dataframe \<Rightarrow> selecao \<Rightarrow> error + dataframe" where
  "df_filtrado d sel =
     ebind (coluna ''ano'' ano d) (\<lambda>c_ano.
     ebind (coluna ''senioridade'' senioridade d) (\<lambda>c_sen.
     ebind (coluna ''contrato'' contrato d) (\<lambda>c_con.
     ebind (coluna ''tamanho_empresa'' tamanho_empresa d) (\<lambda>c_tam.
       Inr (bool_index d
             (mask_and
               (mask_and
                 (mask_and (isin c_ano (anos_selecionados sel))
                           (isin c_sen (senioridades_selecionadas sel)))
                 (isin c_con (contratos_selecionados sel)))
               (isin c_tam (tamanhos_selecionados sel))))))))"

text \<open>The assignment as a step on the script's variables: \<open>df\<close> is read,
  \<open>df_filtrado\<close> is bound to the new frame.\<close>

record variaveis =
  var_df :: dataframe
  var_df_filtrado :: "dataframe option"

definition filtragem :: "selecao \<Rightarrow> variaveis \<Rightarrow> error + variaveis" where
  "filtragem sel s =
     ebind (df_filtrado (var_df s) sel) (\<lambda>v. Inr (s\<lparr>var_df_filtrado := Some v\<rparr>))"

text \<open>The wording of the specification: a record is kept when each of its four filter
  values is a member of the corresponding selection.\<close>

definition satisfaz :: "selecao \<Rightarrow> registro \<Rightarrow> bool" where
  "satisfaz sel r =
     (ano r \<in> set (anos_selecionados sel) \<and>
      senioridade r \<in> set (senioridades_selecionadas sel) \<and>
      contrato r \<in> set (contratos_selecionados sel) \<and>
      tamanho_empresa r \<in> set (tamanhos_selecionados sel))"

definition colunas_filtro :: "string list" where
  "colunas_filtro = [''ano'', ''senioridade'', ''contrato'', ''tamanho_empresa'']"

section \<open>Sidebar (lines 31 to 39)\<close>

text \<open>Python's \<^verbatim>\<open>sorted\<close> on values of one type.  Text is compared character by
  character, numbers by value; on cells that are not missing the order of
  \<open>'a option\<close> is the order of \<open>'a\<close>.\<close>

definition sorted_py :: "'a::linorder list \<Rightarrow> 'a list" where
  "sorted_py xs = sort xs"

definition anos_disponiveis :: "dataframe \<Rightarrow> error + int option list" where
  "anos_disponiveis d =
     ebind (coluna ''ano'' ano d) (\<lambda>c. Inr (sorted_py (unique (dropna c))))"

definition senioridades_disponiveis :: "dataframe \<Rightarrow> error + string option list" where
  "senioridades_disponiveis d =
     ebind (coluna ''senioridade'' senioridade d) (\<lambda>c. Inr (sorted_py (unique (dropna c))))"

definition contratos_disponiveis :: "dataframe \<Rightarrow> error + string option list" where
  "contratos_disponiveis d =
     ebind (coluna ''contrato'' contrato d) (\<lambda>c. Inr (sorted_py (unique (dropna c))))"

definition tamanhos_disponiveis :: "dataframe \<Rightarrow> error + string option list" where
  "tamanhos_disponiveis d =
     ebind (coluna ''tamanho_empresa'' tamanho_empresa d)
       (\<lambda>c. Inr (sorted_py (unique (dropna c))))"

text \<open>The selection at session start: every multiselect has \<^verbatim>\<open>default=\<close> its options.\<close>

definition selecao_padrao :: "dataframe \<Rightarrow> error + selecao" where
  "selecao_padrao d =
     ebind (anos_disponiveis d) (\<lambda>a.
     ebind (senioridades_disponiveis d) (\<lambda>s.
     ebind (contratos_disponiveis d) (\<lambda>c.
     ebind (tamanhos_disponiveis d) (\<lambda>t.
       Inr \<lparr>anos_selecionados = a, senioridades_selecionadas = s,
            contratos_selecionados = c, tamanhos_selecionados = t\<rparr>))))"

text \<open>A multiselect returns some of its options: a selection the sidebar can produce
  for the frame \<open>d\<close>.\<close>

definition selecao_da_barra :: "dataframe \<Rightarrow> selecao \<Rightarrow> bool" where
  "selecao_da_barra d sel =
     (case selecao_padrao d of
        Inl e \<Rightarrow> False
      | Inr p \<Rightarrow>
          set (anos_selecionados sel) \<subseteq> set (anos_selecionados p) \<and>
          set (senioridades_selecionadas sel) \<subseteq> set (senioridades_selecionadas p) \<and>
          set (contratos_selecionados sel) \<subseteq> set (contratos_selecionados p) \<and>
          set (tamanhos_selecionados sel) \<subseteq> set (tamanhos_selecionados p))"

definition sem_nulos :: "registro \<Rightarrow> bool" where
  "sem_nulos r =
     (ano r \<noteq> None \<and> senioridade r \<noteq> None \<and> contrato r \<noteq> None \<and>
      tamanho_empresa r \<noteq> None)"

section \<open>Grouping and aggregation\<close>

text \<open>
  \<^verbatim>\<open>groupby(keys)\<close> with pandas' defaults \<^verbatim>\<open>sort=True, dropna=True\<close>: a row whose
  key has a missing component belongs to no group; the groups come in ascending order
  of their keys, and each holds its values in row order.  The key column is a column of
  cells (\<open>isna = isna1\<close>) or, for a list of two labels, of pairs of cells
  (\<open>isna = isna2\<close>).
\<close>

definition isna1 :: "'a option \<Rightarrow> bool" where
  "isna1 k = (k = None)"

definition isna2 :: "'a option \<times> 'b option \<Rightarrow> bool" where
  "isna2 k = (fst k = None \<or> snd k = None)"

definition groupby :: "('k \<Rightarrow> bool) \<Rightarrow> 'k::linorder list \<Rightarrow> 'v list \<Rightarrow> ('k \<times> 'v list) list" where
  "groupby isna ks vs =
     map (\<lambda>k. (k, map snd (filter (\<lambda>kv. fst kv = k) (zip ks vs))))
       (sort (unique (filter (\<lambda>k. \<not> isna k) ks)))"

text \<open>The values of the cells that are not missing.\<close>

fun values_of :: "'a option list \<Rightarrow> 'a list" where
  "values_of [] = []"
| "values_of (None # s) = values_of s"
| "values_of (Some x # s) = x # values_of s"

text \<open>\<^verbatim>\<open>mean()\<close>, \<^verbatim>\<open>max()\<close> and \<^verbatim>\<open>median()\<close> skip missing cells; with no value
  left the result is missing.\<close>

definition mean :: "rat option list \<Rightarrow> rat option" where
  "mean s =
     (let vs = values_of s
      in if vs = [] then None else Some (sum_list vs / of_nat (length vs)))"

definition col_max :: "rat option list \<Rightarrow> rat option" where
  "col_max s = (case values_of s of [] \<Rightarrow> None | x # xs \<Rightarrow> Some (foldr max xs x))"

definition median :: "rat option list \<Rightarrow> rat option" where
  "median s =
     (let vs = sort (values_of s); n = length vs
      in if n = 0 then None
         else if odd n then Some (vs ! (n div 2))
         else Some ((vs ! (n div 2 - 1) + vs ! (n div 2)) / 2))"

definition gb_mean :: "('k \<times> rat option list) list \<Rightarrow> ('k \<times> rat option) list" where
  "gb_mean g = map (\<lambda>kv. (fst kv, mean (snd kv))) g"

definition gb_median :: "('k \<times> rat option list) list \<Rightarrow> ('k \<times> rat option) list" where
  "gb_median g = map (\<lambda>kv. (fst kv, median (snd kv))) g"

definition gb_size :: "('k \<times> 'v list) list \<Rightarrow> ('k \<times> nat) list" where
  "gb_size g = map (\<lambda>kv. (fst kv, length (snd kv))) g"

text \<open>
  Sorting a labelled column by value.  Descending order reverses, sorts stably and
  reverses again, so that equal values keep the order they had; missing values go
  last in both directions (\<^verbatim>\<open>na_position='last'\<close>).  Which of several equal values
  comes first is the library's choice; the theorems below do not depend on it.
\<close>

definition sort_desc :: "('k \<times> 'v::linorder) list \<Rightarrow> ('k \<times> 'v) list" where
  "sort_desc s = rev (sort_key snd (rev s))"

definition com_valor :: "('k \<times> 'v option) list \<Rightarrow> ('k \<times> 'v option) list" where
  "com_valor s = filter (\<lambda>kv. snd kv \<noteq> None) s"

definition sem_valor :: "('k \<times> 'v option) list \<Rightarrow> ('k \<times> 'v option) list" where
  "sem_valor s = filter (\<lambda>kv. snd kv = None) s"

text \<open>\<^verbatim>\<open>Series.nlargest(n)\<close> (\<^verbatim>\<open>keep='first'\<close>): the \<open>n\<close> largest values in
  descending order, rows with a missing value only after all others.\<close>

definition nlargest :: "nat \<Rightarrow> ('k \<times> 'v::linorder option) list \<Rightarrow> ('k \<times> 'v option) list" where
  "nlargest n s = take n (sort_desc (com_valor s) @ sem_valor s)"

text \<open>The same on a column of counts, which has no missing value.\<close>

definition nlargest_count :: "nat \<Rightarrow> ('k \<times> nat) list \<Rightarrow> ('k \<times> nat) list" where
  "nlargest_count n s = take n (sort_desc s)"

text \<open>\<^verbatim>\<open>sort_values(ascending=True)\<close>.\<close>

definition sort_values :: "('k \<times> 'v::linorder option) list \<Rightarrow> ('k \<times> 'v option) list" where
  "sort_values s = sort_key snd (com_valor s) @ sem_valor s"

text \<open>\<^verbatim>\<open>value_counts()\<close>: the count of every value that is not missing, most frequent
  first.\<close>

definition value_counts :: "'a option list \<Rightarrow> ('a option \<times> nat) list" where
  "value_counts s = sort_desc (map (\<lambda>v. (v, count_list s v)) (unique (dropna s)))"

text \<open>\<^verbatim>\<open>mode()\<close>: the most frequent values that are not missing, ascending.\<close>

definition mode :: "'a::linorder option list \<Rightarrow> 'a option list" where
  "mode s =
     (let us = unique (dropna s); m = foldr max (map (count_list s) us) 0
      in sort (filter (\<lambda>u. count_list s u = m) us))"

text \<open>
  \<^verbatim>\<open>pivot(index, columns, values)\<close> on a table of (row label, column label) entries:
  the labels of each axis ascending, the cell of a pair without entry missing, and
  \<^verbatim>\<open>ValueError\<close> when a pair occurs twice.
\<close>

record ('i, 'c) matriz =
  m_index :: "'i list"
  m_columns :: "'c list"
  m_values :: "rat option list list"

definition pivot :: "(('i::linorder \<times> 'c::linorder) \<times> rat option) list \<Rightarrow> error + ('i, 'c) matriz" where
  "pivot es =
     (if \<not> distinct (map fst es) then Inl ValueError
      else
        let idx = sort (unique (map (\<lambda>e. fst (fst e)) es));
            cols = sort (unique (map (\<lambda>e. snd (fst e)) es))
        in Inr \<lparr>m_index = idx, m_columns = cols,
                m_values =
                  map (\<lambda>i. map (\<lambda>j. case map_of es (i, j) of None \<Rightarrow> None | Some v \<Rightarrow> v) cols)
                    idx\<rparr>)"

text \<open>Reading the cell at two labels (\<^verbatim>\<open>piv.loc[i, j]\<close>), \<^verbatim>\<open>KeyError\<close> for a label
  that is not on its axis.\<close>

fun posicao :: "'a \<Rightarrow> 'a list \<Rightarrow> nat option" where
  "posicao x [] = None"
| "posicao x (y # ys) = (if x = y then Some 0 else map_option Suc (posicao x ys))"

definition loc :: "('i, 'c) matriz \<Rightarrow> 'i \<Rightarrow> 'c \<Rightarrow> error + rat option" where
  "loc m i j =
     (case posicao i (m_index m) of
        None \<Rightarrow> Inl KeyError
      | Some a \<Rightarrow>
          (case posicao j (m_columns m) of
             None \<Rightarrow> Inl KeyError
           | Some b \<Rightarrow> Inr (m_values m ! a ! b)))"

section \<open>Metrics (lines 62 to 75)\<close>

record metricas =
  salario_medio :: "rat option"
  salario_maximo :: "rat option"
  total_registros :: nat
  cargo_mais_frequente :: "string option"

definition kpis :: "dataframe \<Rightarrow> error + metricas" where
  "kpis d =
     (if \<not> df_empty d then
        ebind (coluna ''usd'' usd d) (\<lambda>c_usd.
          Inr \<lparr>salario_medio = mean c_usd,
               salario_maximo = col_max c_usd,
               total_registros = length (rows d),
               cargo_mais_frequente =
                 (if ''cargo'' \<in> set (columns d) \<and> mode (map cargo (rows d)) \<noteq> []
                  then hd (mode (map cargo (rows d)))
                  else Some ''N/D'')\<rparr>)
      else
        Inr \<lparr>salario_medio = Some 0, salario_maximo = Some 0, total_registros = 0,
             cargo_mais_frequente = Some ''N/D''\<rparr>)"

section \<open>Charts\<close>

text \<open>What a chart slot shows: a figure built from a table, or the warning or the note
  that stands for it.\<close>

datatype 'a saida = Grafico 'a | Aviso | Info

subsection \<open>Top 10 titles by mean salary (lines 92 to 113 and 191 to 197)\<close>

definition media_por_cargo :: "dataframe \<Rightarrow> error + (string option \<times> rat option) list" where
  "media_por_cargo d =
     ebind (coluna ''cargo'' cargo d) (\<lambda>k.
     ebind (coluna ''usd'' usd d) (\<lambda>v.
       Inr (gb_mean (groupby isna1 k v))))"

definition top_cargos :: "dataframe \<Rightarrow> error + (string option \<times> rat option) list" where
  "top_cargos d = ebind (media_por_cargo d) (\<lambda>m. Inr (sort_values (nlargest 10 m)))"

definition grafico_cargos :: "dataframe \<Rightarrow> error + (string option \<times> rat option) list saida" where
  "grafico_cargos d =
     (if \<not> df_empty d then ebind (top_cargos d) (\<lambda>t. Inr (Grafico t)) else Inr Aviso)"

definition top10_cargos :: "dataframe \<Rightarrow> error + string option list" where
  "top10_cargos d = ebind (media_por_cargo d) (\<lambda>m. Inr (map fst (nlargest 10 m)))"

text \<open>Display order: ascending, rows with a missing mean last.\<close>

definition ordem_exibicao :: "rat option \<Rightarrow> rat option \<Rightarrow> bool" where
  "ordem_exibicao a b = (b = None \<or> (a \<noteq> None \<and> a \<le> b))"

subsection \<open>Mean salary of Data Scientists per country (lines 150 to 169)\<close>

definition df_ds :: "dataframe \<Rightarrow> error + dataframe" where
  "df_ds d =
     ebind (coluna ''cargo'' cargo d)
       (\<lambda>c. Inr (bool_index d (map (\<lambda>v. v = Some ''Data Scientist'') c)))"

definition media_ds_pais :: "dataframe \<Rightarrow> error + (string option \<times> rat option) list" where
  "media_ds_pais ds =
     ebind (coluna ''residencia_iso3'' residencia_iso3 ds) (\<lambda>k.
     ebind (coluna ''usd'' usd ds) (\<lambda>v.
       Inr (gb_mean (groupby isna1 k v))))"

definition grafico_paises :: "dataframe \<Rightarrow> error + (string option \<times> rat option) list saida" where
  "grafico_paises d =
     (if \<not> df_empty d then
        ebind (df_ds d) (\<lambda>ds.
          if \<not> df_empty ds then ebind (media_ds_pais ds) (\<lambda>m. Inr (Grafico m))
          else Inr Info)
      else Inr Aviso)"

subsection \<open>Tabs (lines 225 to 339)\<close>

definition coluna_pais :: "dataframe \<Rightarrow> string" where
  "coluna_pais d =
     (if ''residencia'' \<in> set (columns d) then ''residencia'' else ''residencia_iso3'')"

text \<open>The treemap table, with the label of its country column.\<close>

definition df_treemap ::
  "dataframe \<Rightarrow> error + string \<times> ((string option \<times> string option) \<times> rat option) list" where
  "df_treemap d =
     (let cp = coluna_pais d
      in ebind (coluna cp (if cp = ''residencia'' then residencia else residencia_iso3) d) (\<lambda>p.
         ebind (coluna ''cargo'' cargo d) (\<lambda>c.
         ebind (coluna ''usd'' usd d) (\<lambda>v.
           Inr (cp, gb_mean (groupby isna2 (zip p c) v))))))"

definition df_sun :: "dataframe \<Rightarrow> error + ((string option \<times> string option) \<times> nat) list" where
  "df_sun d =
     ebind (coluna ''senioridade'' senioridade d) (\<lambda>s.
     ebind (coluna ''contrato'' contrato d) (\<lambda>c.
       Inr (gb_size (groupby isna2 (zip s c) (rows d)))))"

definition media_sen_con ::
  "dataframe \<Rightarrow> error + ((string option \<times> string option) \<times> rat option) list" where
  "media_sen_con d =
     ebind (coluna ''senioridade'' senioridade d) (\<lambda>s.
     ebind (coluna ''contrato'' contrato d) (\<lambda>c.
     ebind (coluna ''usd'' usd d) (\<lambda>v.
       Inr (gb_mean (groupby isna2 (zip s c) v)))))"

definition piv :: "dataframe \<Rightarrow> error + (string option, string option) matriz" where
  "piv d = ebind (media_sen_con d) pivot"

definition top5_cargos :: "dataframe \<Rightarrow> error + string option list" where
  "top5_cargos d =
     ebind (coluna ''cargo'' cargo d)
       (\<lambda>c. Inr (map fst (nlargest_count 5 (value_counts c))))"

definition df_linha :: "dataframe \<Rightarrow> error + ((int option \<times> string option) \<times> rat option) list" where
  "df_linha d =
     ebind (top5_cargos d) (\<lambda>t.
     ebind (coluna ''cargo'' cargo d) (\<lambda>c.
       let d5 = bool_index d (isin c t)
       in ebind (coluna ''ano'' ano d5) (\<lambda>a.
          ebind (coluna ''cargo'' cargo d5) (\<lambda>c5.
          ebind (coluna ''usd'' usd d5) (\<lambda>v.
            Inr (gb_median (groupby isna2 (zip a c5) v)))))))"

text \<open>The table of the animated map for the title picked in the selectbox.\<close>

definition df_anim ::
  "dataframe \<Rightarrow> string option \<Rightarrow> error + ((int option \<times> string option) \<times> rat option) list" where
  "df_anim d cargo_sel =
     ebind (coluna ''cargo'' cargo d) (\<lambda>c.
       let dc = bool_index d (map (\<lambda>v. v \<noteq> None \<and> v = cargo_sel) c)
       in ebind (coluna ''ano'' ano dc) (\<lambda>a.
          ebind (coluna ''residencia_iso3'' residencia_iso3 dc) (\<lambda>p.
          ebind (coluna ''usd'' usd dc) (\<lambda>v.
            Inr (sort_key fst (gb_mean (groupby isna2 (zip a p) v)))))))"

section \<open>Notions of the specification\<close>

text \<open>
  The wording of the specification for a group-by pipeline: the table \<open>t\<close> has one row
  for every key that occurs in the records and is not missing, each key once, in
  ascending order, and the value of a row is the aggregate of exactly the records
  that carry its key.
\<close>

definition agregado ::
  "('k::linorder \<Rightarrow> bool) \<Rightarrow> ('r \<Rightarrow> 'k) \<Rightarrow> ('r list \<Rightarrow> 'v) \<Rightarrow> 'r list \<Rightarrow> ('k \<times> 'v) list \<Rightarrow> bool" where
  "agregado isna chave agg rs t \<longleftrightarrow>
     sorted (map fst t) \<and> distinct (map fst t) \<and>
     set (map fst t) = {k \<in> chave ` set rs. \<not> isna k} \<and>
     (\<forall>kv \<in> set t. snd kv = agg (filter (\<lambda>r. chave r = fst kv) rs))"

text \<open>The frame without the records that miss one of two values.\<close>

definition sem_nulo :: "(registro \<Rightarrow> 'a option) \<Rightarrow> (registro \<Rightarrow> 'b option) \<Rightarrow> dataframe \<Rightarrow> dataframe" where
  "sem_nulo f g d = d\<lparr>rows := filter (\<lambda>r. f r \<noteq> None \<and> g r \<noteq> None) (rows d)\<rparr>"

text \<open>The column of country labels the treemap reads.\<close>

definition campo_pais :: "dataframe \<Rightarrow> registro \<Rightarrow> string option" where
  "campo_pais d = (if ''residencia'' \<in> set (columns d) then residencia else residencia_iso3)"

text \<open>The columns the tabs read.\<close>

definition colunas_abas :: "string list" where
  "colunas_abas = [''cargo'', ''usd'', ''senioridade'', ''contrato'', ''ano'', ''residencia_iso3'']"

section \<open>Example data\<close>

text \<open>The three records of the specification's scenario, with one value in every
  column the scenario leaves open, in a frame without the optional column
  \<open>residencia\<close>.\<close>

definition colunas_csv :: "string list" where
  "colunas_csv =
     [''ano'', ''senioridade'', ''contrato'', ''tamanho_empresa'', ''cargo'', ''usd'',
      ''remoto'', ''residencia_iso3'']"

definition registro_exemplo :: "int \<Rightarrow> string \<Rightarrow> string \<Rightarrow> rat \<Rightarrow> registro" where
  "registro_exemplo a c p u =
     \<lparr>ano = Some a, senioridade = Some ''senior'', contrato = Some ''integral'',
      tamanho_empresa = Some ''media'', cargo = Some c, usd = Some u,
      remoto = Some ''remoto'', residencia_iso3 = Some p, residencia = None\<rparr>"

definition df_exemplo :: dataframe where
  "df_exemplo =
     \<lparr>columns = colunas_csv,
      rows = [registro_exemplo 2023 ''Data Scientist'' ''USA'' 100000,
              registro_exemplo 2023 ''Data Scientist'' ''USA'' 200000,
              registro_exemplo 2024 ''Analyst'' ''BRA'' 50000]\<rparr>"

definition sel_2023 :: selecao where
  "sel_2023 =
     \<lparr>anos_selecionados = [Some 2023], senioridades_selecionadas = [Some ''senior''],
      contratos_selecionados = [Some ''integral''], tamanhos_selecionados = [Some ''media'']\<rparr>"

definition df_com_nulo :: dataframe where
  "df_com_nulo =
     df_exemplo\<lparr>rows := rows df_exemplo @
        [(registro_exemplo 2022 ''Engineer'' ''BRA'' 70000)\<lparr>senioridade := None\<rparr>]\<rparr>"

definition sel_todos :: selecao where
  "sel_todos =
     \<lparr>anos_selecionados = [Some 2022, Some 2023, Some 2024],
      senioridades_selecionadas = [Some ''senior''],
      contratos_selecionados = [Some ''integral''], tamanhos_selecionados = [Some ''media'']\<rparr>"

definition sel_exemplo :: selecao where
  "sel_exemplo =
     \<lparr>anos_selecionados = [Some 2023, Some 2024],
      senioridades_selecionadas = [Some ''senior''],
      contratos_selecionados = [Some ''integral''], tamanhos_selecionados = [Some ''media'']\<rparr>"

definition df_analista :: dataframe where
  "df_analista =
     \<lparr>columns = colunas_csv, rows = [registro_exemplo 2024 ''Analyst'' ''BRA'' 50000]\<rparr>"

text \<open>The same records in a frame that has the column \<open>residencia\<close>.\<close>

definition df_exemplo_nomes :: dataframe where
  "df_exemplo_nomes =
     \<lparr>columns = colunas_csv @ [''residencia''],
      rows = [(registro_exemplo 2023 ''Data Scientist'' ''USA'' 100000)
                \<lparr>residencia := Some ''United States''\<rparr>,
              (registro_exemplo 2023 ''Data Scientist'' ''USA'' 200000)
                \<lparr>residencia := Some ''United States''\<rparr>,
              (registro_exemplo 2024 ''Analyst'' ''BRA'' 50000)
                \<lparr>residencia := Some ''Brazil''\<rparr>]\<rparr>"

text \<open>Eleven titles with one record each, and a twelfth record that shares the
  title of the first.\<close>

definition df_onze :: dataframe where
  "df_onze =
     \<lparr>columns = colunas_csv,
      rows = [registro_exemplo 2023 ''T01'' ''USA'' 10000,
              registro_exemplo 2023 ''T02'' ''USA'' 20000,
              registro_exemplo 2023 ''T03'' ''USA'' 110000,
              registro_exemplo 2023 ''T04'' ''USA'' 40000,
              registro_exemplo 2023 ''T05'' ''USA'' 50000,
              registro_exemplo 2023 ''T06'' ''USA'' 60000,
              registro_exemplo 2023 ''T07'' ''USA'' 70000,
              registro_exemplo 2023 ''T08'' ''USA'' 80000,
              registro_exemplo 2023 ''T09'' ''USA'' 90000,
              registro_exemplo 2023 ''T10'' ''USA'' 100000,
              registro_exemplo 2023 ''T11'' ''USA'' 30000,
              registro_exemplo 2024 ''T01'' ''BRA'' 20000]\<rparr>"

text \<open>Two seniorities and two contract types, of which only two combinations occur.\<close>

definition df_heat :: dataframe where
  "df_heat =
     \<lparr>columns = colunas_csv,
      rows = [registro_exemplo 2023 ''Data Scientist'' ''USA'' 100000,
              (registro_exemplo 2024 ''Analyst'' ''BRA'' 50000)
                \<lparr>senioridade := Some ''junior'', contrato := Some ''parcial''\<rparr>,
              registro_exemplo 2023 ''Data Scientist'' ''USA'' 200000]\<rparr>"

text \<open>Records that miss one grouping value each.\<close>

definition df_nulos :: dataframe where
  "df_nulos =
     \<lparr>columns = colunas_csv,
      rows = [registro_exemplo 2023 ''Data Scientist'' ''USA'' 100000,
              registro_exemplo 2023 ''Data Scientist'' ''USA'' 200000,
              (registro_exemplo 2024 ''Analyst'' ''BRA'' 50000)\<lparr>contrato := None\<rparr>,
              (registro_exemplo 2024 ''Analyst'' ''BRA'' 70000)\<lparr>residencia_iso3 := None\<rparr>,
              (registro_exemplo 2024 ''Data Scientist'' ''USA'' 90000)\<lparr>ano := None\<rparr>,
              (registro_exemplo 2024 ''Data Scientist'' ''USA'' 95000)\<lparr>cargo := None\<rparr>]\<rparr>"

section \<open>Basic facts\<close>

lemma ebind_Inr [simp]: "ebind (Inr x) f = f x"
  by (simp add: ebind_def)

lemma ebind_Inl [simp]: "ebind (Inl e) f = Inl e"
  by (simp add: ebind_def)

lemma ebind_eq_Inr: "ebind m f = Inr y \<longleftrightarrow> (\<exists>x. m = Inr x \<and> f x = Inr y)"
  by (cases m) simp_all

lemma coluna_presente:
  "nome \<in> set (columns d) \<Longrightarrow> coluna nome campo d = Inr (map campo (rows d))"
  by (simp add: coluna_def)

lemma coluna_eq_Inr:
  "coluna nome campo d = Inr c \<longleftrightarrow> nome \<in> set (columns d) \<and> c = map campo (rows d)"
  by (auto simp: coluna_def)

lemma mask_and_map: "mask_and (map P xs) (map Q xs) = map (\<lambda>x. P x \<and> Q x) xs"
  by (induction xs) (simp_all add: mask_and_def)

lemma isin_map: "isin (map f xs) vals = map (\<lambda>x. f x \<in> set vals) xs"
  by (simp add: isin_def)

lemma select_by_mask: "map fst (filter snd (zip xs (map P xs))) = filter P xs"
  by (induction xs) simp_all

lemma bool_index_map: "bool_index d (map P (rows d)) = d\<lparr>rows := filter P (rows d)\<rparr>"
  by (simp add: bool_index_def select_by_mask)

section \<open>The filter\<close>

lemma df_filtrado_eq:
  assumes "set colunas_filtro \<subseteq> set (columns d)"
  shows "df_filtrado d sel = Inr (d\<lparr>rows := filter (satisfaz sel) (rows d)\<rparr>)"
proof -
  from assms have c: "''ano'' \<in> set (columns d)" "''senioridade'' \<in> set (columns d)"
    "''contrato'' \<in> set (columns d)" "''tamanho_empresa'' \<in> set (columns d)"
    by (simp_all add: colunas_filtro_def)
  have "satisfaz sel =
      (\<lambda>x. ((ano x \<in> set (anos_selecionados sel) \<and>
             senioridade x \<in> set (senioridades_selecionadas sel)) \<and>
            contrato x \<in> set (contratos_selecionados sel)) \<and>
           tamanho_empresa x \<in> set (tamanhos_selecionados sel))"
    by (auto simp: satisfaz_def fun_eq_iff)
  then show ?thesis
    by (simp add: df_filtrado_def coluna_presente c isin_map mask_and_map bool_index_map)
qed

lemma df_filtrado_KeyError:
  assumes "\<not> set colunas_filtro \<subseteq> set (columns d)"
  shows "df_filtrado d sel = Inl KeyError"
  using assms by (auto simp: df_filtrado_def coluna_def colunas_filtro_def)

lemma df_filtrado_Inr_iff:
  "df_filtrado d sel = Inr v \<longleftrightarrow>
     set colunas_filtro \<subseteq> set (columns d) \<and> v = d\<lparr>rows := filter (satisfaz sel) (rows d)\<rparr>"
proof (cases "set colunas_filtro \<subseteq> set (columns d)")
  case True
  then show ?thesis by (auto simp: df_filtrado_eq)
next
  case False
  then show ?thesis by (simp add: df_filtrado_KeyError)
qed

lemma colunas_exemplo: "set colunas_filtro \<subseteq> set (columns df_exemplo)"
  by (simp add: colunas_filtro_def df_exemplo_def colunas_csv_def)

text \<open>
  Claim C1.  When the frame has the four filter columns, the filter returns the frame
  with the same labels whose rows are exactly the records that satisfy membership in
  all four selections, in their original order (a subsequence of the rows); the
  assignment binds \<open>df_filtrado\<close> and leaves \<open>df\<close> as it was; and with any one of the
  four selections empty the result has no rows.
\<close>

theorem df_filtrado_exact:
  assumes "set colunas_filtro \<subseteq> set (columns d)"
  shows "df_filtrado d sel = Inr (d\<lparr>rows := filter (satisfaz sel) (rows d)\<rparr>) \<and>
         subseq (filter (satisfaz sel) (rows d)) (rows d) \<and>
         filtragem sel \<lparr>var_df = d, var_df_filtrado = antes\<rparr> =
           Inr \<lparr>var_df = d,
                var_df_filtrado = Some (d\<lparr>rows := filter (satisfaz sel) (rows d)\<rparr>)\<rparr> \<and>
         df_filtrado d (sel\<lparr>anos_selecionados := []\<rparr>) = Inr (d\<lparr>rows := []\<rparr>) \<and>
         df_filtrado d (sel\<lparr>senioridades_selecionadas := []\<rparr>) = Inr (d\<lparr>rows := []\<rparr>) \<and>
         df_filtrado d (sel\<lparr>contratos_selecionados := []\<rparr>) = Inr (d\<lparr>rows := []\<rparr>) \<and>
         df_filtrado d (sel\<lparr>tamanhos_selecionados := []\<rparr>) = Inr (d\<lparr>rows := []\<rparr>)"
proof -
  have eq: "df_filtrado d s = Inr (d\<lparr>rows := filter (satisfaz s) (rows d)\<rparr>)" for s
    by (rule df_filtrado_eq [OF assms])
  have vazio: "filter (satisfaz s) (rows d) = []"
    if "anos_selecionados s = [] \<or> senioridades_selecionadas s = [] \<or>
        contratos_selecionados s = [] \<or> tamanhos_selecionados s = []" for s
    using that by (auto simp: satisfaz_def filter_empty_conv)
  show ?thesis
    by (simp add: eq filtragem_def vazio)
qed

theorem df_filtrado_exact_witness:
  "set colunas_filtro \<subseteq> set (columns df_exemplo) \<and>
   df_filtrado df_exemplo sel_2023 =
     Inr \<lparr>columns = colunas_csv,
          rows = [registro_exemplo 2023 ''Data Scientist'' ''USA'' 100000,
                  registro_exemplo 2023 ''Data Scientist'' ''USA'' 200000]\<rparr> \<and>
   df_filtrado df_exemplo (sel_2023\<lparr>contratos_selecionados := []\<rparr>) =
     Inr \<lparr>columns = colunas_csv, rows = []\<rparr>"
proof -
  note t = df_filtrado_exact [OF colunas_exemplo, where sel = sel_2023 and antes = None]
  have r: "filter (satisfaz sel_2023) (rows df_exemplo) =
      [registro_exemplo 2023 ''Data Scientist'' ''USA'' 100000,
       registro_exemplo 2023 ''Data Scientist'' ''USA'' 200000]"
    by (simp add: df_exemplo_def sel_2023_def satisfaz_def registro_exemplo_def)
  from t have "df_filtrado df_exemplo sel_2023 =
      Inr (df_exemplo\<lparr>rows := filter (satisfaz sel_2023) (rows df_exemplo)\<rparr>)"
    by (rule conjunct1)
  then have a: "df_filtrado df_exemplo sel_2023 =
     Inr \<lparr>columns = colunas_csv,
          rows = [registro_exemplo 2023 ''Data Scientist'' ''USA'' 100000,
                  registro_exemplo 2023 ''Data Scientist'' ''USA'' 200000]\<rparr>"
    unfolding r by (simp add: df_exemplo_def)
  from t have "df_filtrado df_exemplo (sel_2023\<lparr>contratos_selecionados := []\<rparr>) =
      Inr (df_exemplo\<lparr>rows := []\<rparr>)"
    by blast
  then have b: "df_filtrado df_exemplo (sel_2023\<lparr>contratos_selecionados := []\<rparr>) =
      Inr \<lparr>columns = colunas_csv, rows = []\<rparr>"
    by (simp add: df_exemplo_def)
  from colunas_exemplo a b show ?thesis by blast
qed

text \<open>
  Claim C6.  Filtering a filtered view again with the same selection returns the same
  view.
\<close>

theorem df_filtrado_idempotent:
  assumes "df_filtrado d sel = Inr v"
  shows "df_filtrado v sel = Inr v"
proof -
  from assms have c: "set colunas_filtro \<subseteq> set (columns d)"
    and v: "v = d\<lparr>rows := filter (satisfaz sel) (rows d)\<rparr>"
    by (simp_all add: df_filtrado_Inr_iff)
  from c v have "set colunas_filtro \<subseteq> set (columns v)" by simp
  then have "df_filtrado v sel = Inr (v\<lparr>rows := filter (satisfaz sel) (rows v)\<rparr>)"
    by (rule df_filtrado_eq)
  with v show ?thesis by simp
qed

theorem df_filtrado_idempotent_witness:
  "df_filtrado df_exemplo sel_2023 =
     Inr \<lparr>columns = colunas_csv,
          rows = [registro_exemplo 2023 ''Data Scientist'' ''USA'' 100000,
                  registro_exemplo 2023 ''Data Scientist'' ''USA'' 200000]\<rparr> \<and>
   df_filtrado
     \<lparr>columns = colunas_csv,
      rows = [registro_exemplo 2023 ''Data Scientist'' ''USA'' 100000,
              registro_exemplo 2023 ''Data Scientist'' ''USA'' 200000]\<rparr> sel_2023 =
     Inr \<lparr>columns = colunas_csv,
          rows = [registro_exemplo 2023 ''Data Scientist'' ''USA'' 100000,
                  registro_exemplo 2023 ''Data Scientist'' ''USA'' 200000]\<rparr>"
proof -
  have h: "df_filtrado df_exemplo sel_2023 =
     Inr \<lparr>columns = colunas_csv,
          rows = [registro_exemplo 2023 ''Data Scientist'' ''USA'' 100000,
                  registro_exemplo 2023 ''Data Scientist'' ''USA'' 200000]\<rparr>"
    by (simp add: df_filtrado_eq [OF colunas_exemplo])
      (simp add: df_exemplo_def sel_2023_def satisfaz_def registro_exemplo_def)
  show ?thesis using h df_filtrado_idempotent [OF h] by simp
qed

section \<open>The sidebar and missing values\<close>

lemma set_unique [simp]: "set (unique xs) = set xs"
  by (induction xs rule: unique.induct) auto

lemma distinct_unique [simp]: "distinct (unique xs)"
  by (induction xs rule: unique.induct) auto

lemma set_sorted_py [simp]: "set (sorted_py xs) = set xs"
  by (simp add: sorted_py_def)

lemma set_dropna [simp]: "set (dropna s) = set s - {None}"
  by (auto simp: dropna_def)

lemma disponiveis_Inr:
  assumes "ebind (coluna n f d) (\<lambda>c. Inr (sorted_py (unique (dropna c)))) = Inr a"
  shows "n \<in> set (columns d) \<and> set a = f ` set (rows d) - {None}"
  using assms by (auto simp: ebind_eq_Inr coluna_eq_Inr)

lemma selecao_padrao_Inr:
  assumes "selecao_padrao d = Inr p"
  shows "set colunas_filtro \<subseteq> set (columns d)"
    and "set (anos_selecionados p) = ano ` set (rows d) - {None}"
    and "set (senioridades_selecionadas p) = senioridade ` set (rows d) - {None}"
    and "set (contratos_selecionados p) = contrato ` set (rows d) - {None}"
    and "set (tamanhos_selecionados p) = tamanho_empresa ` set (rows d) - {None}"
proof -
  from assms obtain a s c t where
    a: "anos_disponiveis d = Inr a" and s: "senioridades_disponiveis d = Inr s" and
    c: "contratos_disponiveis d = Inr c" and t: "tamanhos_disponiveis d = Inr t" and
    p: "p = \<lparr>anos_selecionados = a, senioridades_selecionadas = s,
            contratos_selecionados = c, tamanhos_selecionados = t\<rparr>"
    unfolding selecao_padrao_def ebind_eq_Inr by auto
  note a' = disponiveis_Inr [OF a [unfolded anos_disponiveis_def]]
    and s' = disponiveis_Inr [OF s [unfolded senioridades_disponiveis_def]]
    and c' = disponiveis_Inr [OF c [unfolded contratos_disponiveis_def]]
    and t' = disponiveis_Inr [OF t [unfolded tamanhos_disponiveis_def]]
  from a' s' c' t' show "set colunas_filtro \<subseteq> set (columns d)"
    by (simp add: colunas_filtro_def)
  from a' p show "set (anos_selecionados p) = ano ` set (rows d) - {None}" by simp
  from s' p show "set (senioridades_selecionadas p) = senioridade ` set (rows d) - {None}"
    by simp
  from c' p show "set (contratos_selecionados p) = contrato ` set (rows d) - {None}" by simp
  from t' p show "set (tamanhos_selecionados p) = tamanho_empresa ` set (rows d) - {None}"
    by simp
qed

lemma selecao_padrao_total:
  assumes "set colunas_filtro \<subseteq> set (columns d)"
  shows "\<exists>p. selecao_padrao d = Inr p"
  using assms
  by (simp add: selecao_padrao_def anos_disponiveis_def senioridades_disponiveis_def
      contratos_disponiveis_def tamanhos_disponiveis_def coluna_presente colunas_filtro_def)

lemma satisfaz_padrao:
  assumes "selecao_padrao d = Inr p" and "r \<in> set (rows d)"
  shows "satisfaz p r \<longleftrightarrow> sem_nulos r"
  using assms(2) selecao_padrao_Inr(2-5) [OF assms(1)]
  by (auto simp: satisfaz_def sem_nulos_def)

lemma satisfaz_barra:
  assumes "selecao_da_barra d sel" and "satisfaz sel r"
  shows "sem_nulos r"
proof (cases "selecao_padrao d")
  case (Inl e)
  with assms(1) show ?thesis by (simp add: selecao_da_barra_def)
next
  case (Inr p)
  with assms(1) have
    s: "set (anos_selecionados sel) \<subseteq> set (anos_selecionados p)"
      "set (senioridades_selecionadas sel) \<subseteq> set (senioridades_selecionadas p)"
      "set (contratos_selecionados sel) \<subseteq> set (contratos_selecionados p)"
      "set (tamanhos_selecionados sel) \<subseteq> set (tamanhos_selecionados p)"
    by (simp_all add: selecao_da_barra_def)
  note q = selecao_padrao_Inr(2-5) [OF Inr]
  from assms(2) have m: "ano r \<in> set (anos_selecionados sel)"
    "senioridade r \<in> set (senioridades_selecionadas sel)"
    "contrato r \<in> set (contratos_selecionados sel)"
    "tamanho_empresa r \<in> set (tamanhos_selecionados sel)"
    by (simp_all add: satisfaz_def)
  from m(1) s(1) have "ano r \<in> set (anos_selecionados p)" by (rule subsetD [rotated])
  then have "ano r \<noteq> None" unfolding q(1) by simp
  moreover from m(2) s(2) have "senioridade r \<in> set (senioridades_selecionadas p)"
    by (rule subsetD [rotated])
  then have "senioridade r \<noteq> None" unfolding q(2) by simp
  moreover from m(3) s(3) have "contrato r \<in> set (contratos_selecionados p)"
    by (rule subsetD [rotated])
  then have "contrato r \<noteq> None" unfolding q(3) by simp
  moreover from m(4) s(4) have "tamanho_empresa r \<in> set (tamanhos_selecionados p)"
    by (rule subsetD [rotated])
  then have "tamanho_empresa r \<noteq> None" unfolding q(4) by simp
  ultimately show ?thesis by (simp add: sem_nulos_def)
qed

lemma df_filtrado_padrao:
  assumes "selecao_padrao d = Inr p"
  shows "df_filtrado d p = Inr (d\<lparr>rows := filter sem_nulos (rows d)\<rparr>)"
proof -
  have "filter (satisfaz p) (rows d) = filter sem_nulos (rows d)"
    by (rule filter_cong) (simp_all add: satisfaz_padrao [OF assms])
  then show ?thesis
    by (simp add: df_filtrado_eq [OF selecao_padrao_Inr(1) [OF assms]])
qed

lemma padrao_com_nulo: "selecao_padrao df_com_nulo = Inr sel_todos"
  by (simp add: selecao_padrao_def anos_disponiveis_def senioridades_disponiveis_def
      contratos_disponiveis_def tamanhos_disponiveis_def coluna_def df_com_nulo_def df_exemplo_def
      colunas_csv_def registro_exemplo_def dropna_def sorted_py_def sel_todos_def)

lemma sem_nulos_com_nulo: "filter sem_nulos (rows df_com_nulo) = rows df_exemplo"
  by (simp add: df_com_nulo_def df_exemplo_def sem_nulos_def registro_exemplo_def)

text \<open>
  Claim C9.  The options of every multiselect are the values of its column that are not
  missing.  With the default selection the filtered view holds exactly the records
  without a missing value in the four filter columns; with any selection the sidebar
  can produce, no record with such a missing value is in the view; and there is a
  dataset whose default view has fewer records than the dataset.
\<close>

theorem filtro_exclui_nulos:
  assumes "selecao_padrao d = Inr p"
  shows "df_filtrado d p = Inr (d\<lparr>rows := filter sem_nulos (rows d)\<rparr>) \<and>
         (\<forall>sel v. selecao_da_barra d sel \<and> df_filtrado d sel = Inr v \<longrightarrow>
            (\<forall>r \<in> set (rows v). sem_nulos r)) \<and>
         (\<exists>d' p' v'. selecao_padrao d' = Inr p' \<and> df_filtrado d' p' = Inr v' \<and>
            length (rows v') < length (rows d'))"
proof (intro conjI allI impI)
  show "df_filtrado d p = Inr (d\<lparr>rows := filter sem_nulos (rows d)\<rparr>)"
    by (rule df_filtrado_padrao [OF assms])
next
  fix sel v
  assume a: "selecao_da_barra d sel \<and> df_filtrado d sel = Inr v"
  then have "rows v = filter (satisfaz sel) (rows d)"
    by (simp add: df_filtrado_Inr_iff)
  with a show "\<forall>r \<in> set (rows v). sem_nulos r"
    by (auto dest: satisfaz_barra)
next
  have "df_filtrado df_com_nulo sel_todos =
      Inr (df_com_nulo\<lparr>rows := filter sem_nulos (rows df_com_nulo)\<rparr>)"
    by (rule df_filtrado_padrao [OF padrao_com_nulo])
  moreover have "length (filter sem_nulos (rows df_com_nulo)) < length (rows df_com_nulo)"
    by (simp add: sem_nulos_com_nulo) (simp add: df_com_nulo_def df_exemplo_def)
  ultimately show "\<exists>d' p' v'. selecao_padrao d' = Inr p' \<and> df_filtrado d' p' = Inr v' \<and>
            length (rows v') < length (rows d')"
    using padrao_com_nulo
    by (intro exI [of _ df_com_nulo] exI [of _ sel_todos] exI) auto
qed

theorem filtro_exclui_nulos_witness:
  "selecao_padrao df_com_nulo = Inr sel_todos \<and>
   df_filtrado df_com_nulo sel_todos = Inr df_exemplo \<and>
   selecao_da_barra df_com_nulo sel_2023 \<and>
   df_filtrado df_com_nulo sel_2023 = Inr (df_exemplo\<lparr>rows := take 2 (rows df_exemplo)\<rparr>) \<and>
   list_all sem_nulos (take 2 (rows df_exemplo))"
proof -
  note t = filtro_exclui_nulos [OF padrao_com_nulo]
  from t have "df_filtrado df_com_nulo sel_todos =
      Inr (df_com_nulo\<lparr>rows := filter sem_nulos (rows df_com_nulo)\<rparr>)"
    by (rule conjunct1)
  then have a: "df_filtrado df_com_nulo sel_todos = Inr df_exemplo"
    by (simp add: sem_nulos_com_nulo) (simp add: df_com_nulo_def)
  have b: "selecao_da_barra df_com_nulo sel_2023"
    by (simp add: selecao_da_barra_def padrao_com_nulo) (simp add: sel_2023_def sel_todos_def)
  have c: "set colunas_filtro \<subseteq> set (columns df_com_nulo)"
    by (rule selecao_padrao_Inr(1) [OF padrao_com_nulo])
  have "filter (satisfaz sel_2023) (rows df_com_nulo) = take 2 (rows df_exemplo)"
    by (simp add: df_com_nulo_def df_exemplo_def sel_2023_def satisfaz_def registro_exemplo_def)
  then have d: "df_filtrado df_com_nulo sel_2023 =
      Inr (df_exemplo\<lparr>rows := take 2 (rows df_exemplo)\<rparr>)"
    by (simp add: df_filtrado_eq [OF c]) (simp add: df_com_nulo_def)
  from t have "\<forall>sel v. selecao_da_barra df_com_nulo sel \<and> df_filtrado df_com_nulo sel = Inr v \<longrightarrow>
            (\<forall>r \<in> set (rows v). sem_nulos r)"
    by blast
  with b d have "\<forall>r \<in> set (rows (df_exemplo\<lparr>rows := take 2 (rows df_exemplo)\<rparr>)). sem_nulos r"
    by blast
  then have e: "list_all sem_nulos (take 2 (rows df_exemplo))"
    by (simp add: list_all_iff)
  from padrao_com_nulo a b d e show ?thesis by blast
qed

section \<open>Metrics\<close>

text \<open>
  Claim C5.  On a filtered view without records the four metrics are the placeholders:
  mean salary 0, maximal salary 0, record count 0 and most frequent title "N/D"; the
  computation returns them and raises nothing.
\<close>

theorem kpis_empty:
  assumes "rows v = []"
  shows "kpis v =
     Inr \<lparr>salario_medio = Some 0, salario_maximo = Some 0, total_registros = 0,
          cargo_mais_frequente = Some ''N/D''\<rparr>"
  using assms by (simp add: kpis_def df_empty_def)

theorem kpis_empty_witness:
  "rows (df_exemplo\<lparr>rows := []\<rparr>) = [] \<and>
   kpis (df_exemplo\<lparr>rows := []\<rparr>) =
     Inr \<lparr>salario_medio = Some 0, salario_maximo = Some 0, total_registros = 0,
          cargo_mais_frequente = Some ''N/D''\<rparr>"
proof -
  have h: "rows (df_exemplo\<lparr>rows := []\<rparr>) = []" by simp
  from h kpis_empty [OF h] show ?thesis by blast
qed

section \<open>Grouped tables\<close>

lemma group_values:
  "map snd (filter (\<lambda>kv. fst kv = k) (zip (map f rs) (map g rs))) =
   map g (filter (\<lambda>r. f r = k) rs)"
  by (induction rs) simp_all

lemma groupby_rows:
  "groupby isna (map f rs) (map g rs) =
   map (\<lambda>k. (k, map g (filter (\<lambda>r. f r = k) rs)))
     (sort (unique (filter (\<lambda>k. \<not> isna k) (map f rs))))"
  by (simp add: groupby_def group_values)

lemma zip_columns: "zip (map f rs) (map h rs) = map (\<lambda>r. (f r, h r)) rs"
  by (induction rs) simp_all

lemma agregado_groupby:
  "agregado isna f (\<lambda>g. agg (map val g)) rs
     (map (\<lambda>kv. (fst kv, agg (snd kv))) (groupby isna (map f rs) (map val rs)))"
  unfolding agregado_def groupby_rows
  by (auto simp: comp_def)

lemma agregado_gb_mean:
  "agregado isna f (\<lambda>g. mean (map val g)) rs (gb_mean (groupby isna (map f rs) (map val rs)))"
  unfolding gb_mean_def by (rule agregado_groupby)

lemma agregado_gb_median:
  "agregado isna f (\<lambda>g. median (map val g)) rs
     (gb_median (groupby isna (map f rs) (map val rs)))"
  unfolding gb_median_def by (rule agregado_groupby)

lemma agregado_gb_size:
  "agregado isna f length rs (gb_size (groupby isna (map f rs) rs))"
  using agregado_groupby [of isna f length "\<lambda>r. r" rs]
  by (simp add: gb_size_def)

section \<open>Data Scientists per country\<close>

lemma df_ds_eq:
  assumes "''cargo'' \<in> set (columns d)"
  shows "df_ds d = Inr (d\<lparr>rows := filter (\<lambda>r. cargo r = Some ''Data Scientist'') (rows d)\<rparr>)"
  by (simp add: df_ds_def coluna_presente [OF assms] bool_index_map comp_def)

lemma media_ds_pais_eq:
  assumes "''residencia_iso3'' \<in> set (columns ds)" and "''usd'' \<in> set (columns ds)"
  shows "media_ds_pais ds =
     Inr (gb_mean (groupby isna1 (map residencia_iso3 (rows ds)) (map usd (rows ds))))"
  by (simp add: media_ds_pais_def coluna_presente assms)

lemma grafico_paises_sem_ds:
  assumes "''cargo'' \<in> set (columns d)"
    and "\<forall>r \<in> set (rows d). cargo r \<noteq> Some ''Data Scientist''"
  shows "grafico_paises d = Inr (if rows d = [] then Aviso else Info)"
proof -
  from assms(2) have "filter (\<lambda>r. cargo r = Some ''Data Scientist'') (rows d) = []"
    by (simp add: filter_empty_conv)
  moreover from assms(1) have "columns d \<noteq> []" by auto
  ultimately show ?thesis
    by (simp add: grafico_paises_def df_ds_eq [OF assms(1)] df_empty_def)
qed

lemma grafico_paises_com_ds:
  assumes "''cargo'' \<in> set (columns d)" and "''residencia_iso3'' \<in> set (columns d)"
    and "''usd'' \<in> set (columns d)"
    and "\<exists>r \<in> set (rows d). cargo r = Some ''Data Scientist''"
  shows "\<exists>m. grafico_paises d = Inr (Grafico m) \<and>
     agregado isna1 residencia_iso3 (\<lambda>g. mean (map usd g))
       (filter (\<lambda>r. cargo r = Some ''Data Scientist'') (rows d)) m"
proof -
  let ?ds = "d\<lparr>rows := filter (\<lambda>r. cargo r = Some ''Data Scientist'') (rows d)\<rparr>"
  from assms(4) have ne: "filter (\<lambda>r. cargo r = Some ''Data Scientist'') (rows d) \<noteq> []"
    by (simp add: filter_empty_conv)
  then have "rows d \<noteq> []" by auto
  moreover from assms(1) have "columns d \<noteq> []" by auto
  ultimately have e: "\<not> df_empty d" "\<not> df_empty ?ds"
    using ne by (simp_all add: df_empty_def)
  have m: "media_ds_pais ?ds =
      Inr (gb_mean (groupby isna1 (map residencia_iso3 (rows ?ds)) (map usd (rows ?ds))))"
    by (rule media_ds_pais_eq) (simp_all add: assms)
  have "grafico_paises d =
      Inr (Grafico (gb_mean (groupby isna1 (map residencia_iso3 (rows ?ds)) (map usd (rows ?ds)))))"
    using e by (simp add: grafico_paises_def df_ds_eq [OF assms(1)] m)
  moreover have "agregado isna1 residencia_iso3 (\<lambda>g. mean (map usd g)) (rows ?ds)
      (gb_mean (groupby isna1 (map residencia_iso3 (rows ?ds)) (map usd (rows ?ds))))"
    by (rule agregado_gb_mean)
  ultimately show ?thesis by simp
qed

lemma padrao_exemplo: "selecao_padrao df_exemplo = Inr sel_exemplo"
  by (simp add: selecao_padrao_def anos_disponiveis_def senioridades_disponiveis_def
      contratos_disponiveis_def tamanhos_disponiveis_def coluna_def df_exemplo_def
      colunas_csv_def registro_exemplo_def dropna_def sorted_py_def sel_exemplo_def)

lemma filtrado_exemplo: "df_filtrado df_exemplo sel_exemplo = Inr df_exemplo"
proof -
  have "filter sem_nulos (rows df_exemplo) = rows df_exemplo"
    by (simp add: df_exemplo_def sem_nulos_def registro_exemplo_def)
  then show ?thesis
    by (simp add: df_filtrado_padrao [OF padrao_exemplo])
qed

lemma grafico_paises_exemplo:
  "grafico_paises df_exemplo = Inr (Grafico [(Some ''USA'', Some 150000)])"
  by (simp add: grafico_paises_def df_exemplo_def df_empty_def colunas_csv_def df_ds_def
      coluna_def bool_index_def registro_exemplo_def media_ds_pais_def gb_mean_def groupby_def
      isna1_def mean_def)

text \<open>
  Claim C4.  The pipeline keeps the records whose title is exactly "Data Scientist",
  groups them by country code and takes the mean salary per country.  When no record
  of the view has that title the slot shows a note (a warning when the view has no
  record at all) and nothing is raised; when some record has it, the figure's table
  has one row per country code of those records with their mean salary.  On the
  three-record example, all records selected, the table is USA with 150000.
\<close>

theorem grafico_paises_data_scientist:
  assumes "''cargo'' \<in> set (columns d)"
  shows
    "((\<forall>r \<in> set (rows d). cargo r \<noteq> Some ''Data Scientist'') \<longrightarrow>
        grafico_paises d = Inr (if rows d = [] then Aviso else Info)) \<and>
     ((\<exists>r \<in> set (rows d). cargo r = Some ''Data Scientist'') \<and>
      ''residencia_iso3'' \<in> set (columns d) \<and> ''usd'' \<in> set (columns d) \<longrightarrow>
        (\<exists>m. grafico_paises d = Inr (Grafico m) \<and>
           agregado isna1 residencia_iso3 (\<lambda>g. mean (map usd g))
             (filter (\<lambda>r. cargo r = Some ''Data Scientist'') (rows d)) m)) \<and>
     selecao_padrao df_exemplo = Inr sel_exemplo \<and>
     df_filtrado df_exemplo sel_exemplo = Inr df_exemplo \<and>
     grafico_paises df_exemplo = Inr (Grafico [(Some ''USA'', Some 150000)])"
  using grafico_paises_sem_ds [OF assms] grafico_paises_com_ds [OF assms]
    padrao_exemplo filtrado_exemplo grafico_paises_exemplo
  by blast

theorem grafico_paises_data_scientist_witness:
  "''cargo'' \<in> set (columns df_analista) \<and>
   map cargo (rows df_analista) = [Some ''Analyst''] \<and>
   grafico_paises df_analista = Inr Info \<and>
   ''cargo'' \<in> set (columns df_exemplo) \<and>
   (\<exists>r \<in> set (rows df_exemplo). cargo r = Some ''Data Scientist'') \<and>
   ''residencia_iso3'' \<in> set (columns df_exemplo) \<and> ''usd'' \<in> set (columns df_exemplo) \<and>
   grafico_paises df_exemplo = Inr (Grafico [(Some ''USA'', Some 150000)]) \<and>
   agregado isna1 residencia_iso3 (\<lambda>g. mean (map usd g))
     (filter (\<lambda>r. cargo r = Some ''Data Scientist'') (rows df_exemplo))
     [(Some ''USA'', Some 150000)]"
proof -
  have c1: "''cargo'' \<in> set (columns df_analista)"
    by (simp add: df_analista_def colunas_csv_def)
  have n1: "\<forall>r \<in> set (rows df_analista). cargo r \<noteq> Some ''Data Scientist''"
    by (simp add: df_analista_def registro_exemplo_def)
  have r1: "rows df_analista \<noteq> []"
    by (simp add: df_analista_def)
  from grafico_paises_data_scientist [OF c1] n1 r1
  have a: "grafico_paises df_analista = Inr Info" by simp
  have c2: "''cargo'' \<in> set (columns df_exemplo)"
    "''residencia_iso3'' \<in> set (columns df_exemplo)" "''usd'' \<in> set (columns df_exemplo)"
    by (simp_all add: df_exemplo_def colunas_csv_def)
  have n2: "\<exists>r \<in> set (rows df_exemplo). cargo r = Some ''Data Scientist''"
    by (simp add: df_exemplo_def registro_exemplo_def)
  from grafico_paises_data_scientist [OF c2(1)] n2 c2
  obtain m where m: "grafico_paises df_exemplo = Inr (Grafico m)"
    "agregado isna1 residencia_iso3 (\<lambda>g. mean (map usd g))
       (filter (\<lambda>r. cargo r = Some ''Data Scientist'') (rows df_exemplo)) m"
    by blast
  from grafico_paises_data_scientist [OF c2(1)]
  have g: "grafico_paises df_exemplo = Inr (Grafico [(Some ''USA'', Some 150000)])"
    by blast
  with m(1) have "m = [(Some ''USA'', Some 150000)]" by simp
  moreover have "map cargo (rows df_analista) = [Some ''Analyst'']"
    by (simp add: df_analista_def registro_exemplo_def)
  ultimately show ?thesis using m(2) g c1 a c2 n2 by blast
qed

section \<open>Treemap\<close>

lemma df_treemap_nome:
  assumes "''residencia'' \<in> set (columns d)" and "''cargo'' \<in> set (columns d)"
    and "''usd'' \<in> set (columns d)"
  shows "df_treemap d =
     Inr (''residencia'',
          gb_mean (groupby isna2 (map (\<lambda>r. (residencia r, cargo r)) (rows d)) (map usd (rows d))))"
  by (simp add: df_treemap_def coluna_pais_def coluna_presente assms zip_columns)

lemma df_treemap_iso3:
  assumes "''residencia'' \<notin> set (columns d)" and "''residencia_iso3'' \<in> set (columns d)"
    and "''cargo'' \<in> set (columns d)" and "''usd'' \<in> set (columns d)"
  shows "df_treemap d =
     Inr (''residencia_iso3'',
          gb_mean (groupby isna2 (map (\<lambda>r. (residencia_iso3 r, cargo r)) (rows d))
            (map usd (rows d))))"
  by (simp add: df_treemap_def coluna_pais_def coluna_presente assms zip_columns)

text \<open>
  Claim C8.  When the view has the column \<open>residencia\<close> the treemap table is labelled
  and grouped by the country name; when it has not, by the ISO3 code.  In both cases
  the table has one row per pair of country label and title that occurs in the view,
  with the mean salary of the records of that pair.
\<close>

theorem df_treemap_country_label:
  assumes "''cargo'' \<in> set (columns d)" and "''usd'' \<in> set (columns d)"
  shows
    "(''residencia'' \<in> set (columns d) \<longrightarrow>
        (\<exists>t. df_treemap d = Inr (''residencia'', t) \<and>
           agregado isna2 (\<lambda>r. (residencia r, cargo r)) (\<lambda>g. mean (map usd g)) (rows d) t)) \<and>
     (''residencia'' \<notin> set (columns d) \<and> ''residencia_iso3'' \<in> set (columns d) \<longrightarrow>
        (\<exists>t. df_treemap d = Inr (''residencia_iso3'', t) \<and>
           agregado isna2 (\<lambda>r. (residencia_iso3 r, cargo r)) (\<lambda>g. mean (map usd g))
             (rows d) t))"
proof (intro conjI impI)
  assume "''residencia'' \<in> set (columns d)"
  then show "\<exists>t. df_treemap d = Inr (''residencia'', t) \<and>
      agregado isna2 (\<lambda>r. (residencia r, cargo r)) (\<lambda>g. mean (map usd g)) (rows d) t"
    using agregado_gb_mean [of isna2 "\<lambda>r. (residencia r, cargo r)" usd "rows d"]
    by (simp add: df_treemap_nome assms)
next
  assume "''residencia'' \<notin> set (columns d) \<and> ''residencia_iso3'' \<in> set (columns d)"
  then show "\<exists>t. df_treemap d = Inr (''residencia_iso3'', t) \<and>
      agregado isna2 (\<lambda>r. (residencia_iso3 r, cargo r)) (\<lambda>g. mean (map usd g)) (rows d) t"
    using agregado_gb_mean [of isna2 "\<lambda>r. (residencia_iso3 r, cargo r)" usd "rows d"]
    by (simp add: df_treemap_iso3 assms)
qed

lemma df_treemap_exemplo:
  "df_treemap df_exemplo =
     Inr (''residencia_iso3'',
          [((Some ''BRA'', Some ''Analyst''), Some 50000),
           ((Some ''USA'', Some ''Data Scientist''), Some 150000)])"
  by (simp add: df_treemap_def coluna_pais_def coluna_def df_exemplo_def colunas_csv_def
      registro_exemplo_def gb_mean_def groupby_def isna2_def mean_def)

lemma df_treemap_exemplo_nomes:
  "df_treemap df_exemplo_nomes =
     Inr (''residencia'',
          [((Some ''Brazil'', Some ''Analyst''), Some 50000),
           ((Some ''United States'', Some ''Data Scientist''), Some 150000)])"
  by (simp add: df_treemap_def coluna_pais_def coluna_def df_exemplo_nomes_def colunas_csv_def
      registro_exemplo_def gb_mean_def groupby_def isna2_def mean_def)

theorem df_treemap_country_label_witness:
  "''cargo'' \<in> set (columns df_exemplo) \<and> ''usd'' \<in> set (columns df_exemplo) \<and>
   ''residencia'' \<notin> set (columns df_exemplo) \<and>
   ''residencia_iso3'' \<in> set (columns df_exemplo) \<and>
   df_treemap df_exemplo =
     Inr (''residencia_iso3'',
          [((Some ''BRA'', Some ''Analyst''), Some 50000),
           ((Some ''USA'', Some ''Data Scientist''), Some 150000)]) \<and>
   agregado isna2 (\<lambda>r. (residencia_iso3 r, cargo r)) (\<lambda>g. mean (map usd g))
     (rows df_exemplo)
     [((Some ''BRA'', Some ''Analyst''), Some 50000),
      ((Some ''USA'', Some ''Data Scientist''), Some 150000)] \<and>
   ''cargo'' \<in> set (columns df_exemplo_nomes) \<and> ''usd'' \<in> set (columns df_exemplo_nomes) \<and>
   ''residencia'' \<in> set (columns df_exemplo_nomes) \<and>
   df_treemap df_exemplo_nomes =
     Inr (''residencia'',
          [((Some ''Brazil'', Some ''Analyst''), Some 50000),
           ((Some ''United States'', Some ''Data Scientist''), Some 150000)]) \<and>
   agregado isna2 (\<lambda>r. (residencia r, cargo r)) (\<lambda>g. mean (map usd g))
     (rows df_exemplo_nomes)
     [((Some ''Brazil'', Some ''Analyst''), Some 50000),
      ((Some ''United States'', Some ''Data Scientist''), Some 150000)]"
proof -
  have c: "''cargo'' \<in> set (columns df_exemplo)" "''usd'' \<in> set (columns df_exemplo)"
    "''residencia'' \<notin> set (columns df_exemplo)"
    "''residencia_iso3'' \<in> set (columns df_exemplo)"
    by (simp_all add: df_exemplo_def colunas_csv_def)
  have n: "''cargo'' \<in> set (columns df_exemplo_nomes)"
    "''usd'' \<in> set (columns df_exemplo_nomes)"
    "''residencia'' \<in> set (columns df_exemplo_nomes)"
    by (simp_all add: df_exemplo_nomes_def colunas_csv_def)
  from df_treemap_country_label [OF c(1,2)] c(3,4)
  have a: "agregado isna2 (\<lambda>r. (residencia_iso3 r, cargo r)) (\<lambda>g. mean (map usd g))
     (rows df_exemplo)
     [((Some ''BRA'', Some ''Analyst''), Some 50000),
      ((Some ''USA'', Some ''Data Scientist''), Some 150000)]"
    by (auto simp: df_treemap_exemplo)
  from df_treemap_country_label [OF n(1,2)] n(3)
  have b: "agregado isna2 (\<lambda>r. (residencia r, cargo r)) (\<lambda>g. mean (map usd g))
     (rows df_exemplo_nomes)
     [((Some ''Brazil'', Some ''Analyst''), Some 50000),
      ((Some ''United States'', Some ''Data Scientist''), Some 150000)]"
    by (auto simp: df_treemap_exemplo_nomes)
  from c n a b df_treemap_exemplo df_treemap_exemplo_nomes show ?thesis by blast
qed

section \<open>Top 10 titles by mean salary\<close>

lemma mset_sort_desc [simp]: "mset (sort_desc s) = mset s"
  by (simp add: sort_desc_def)

lemma mset_com_sem_valor: "mset (com_valor s) + mset (sem_valor s) = mset s"
  by (induction s) (simp_all add: com_valor_def sem_valor_def)

lemma mset_ordenado: "mset (sort_desc (com_valor s) @ sem_valor s) = mset s"
  by (simp add: mset_com_sem_valor)

lemma mset_sort_values [simp]: "mset (sort_values s) = mset s"
  by (simp add: sort_values_def mset_com_sem_valor)

lemma sort_desc_descending: "sorted_wrt (\<lambda>a b. snd b \<le> snd a) (sort_desc s)"
proof -
  have "sorted (map snd (sort_key snd (rev s)))" by (rule sorted_sort_key)
  then have "sorted_wrt (\<lambda>a b. snd a \<le> snd b) (sort_key snd (rev s))"
    by (simp add: sorted_map)
  then show ?thesis
    by (simp add: sort_desc_def sorted_wrt_rev)
qed

lemma sem_valor_constante: "sorted_wrt (\<lambda>a b. snd b \<le> snd a) (sem_valor s)"
  unfolding sem_valor_def by (induction s) simp_all

lemma ordenado_descending:
  "sorted_wrt (\<lambda>a b. snd b \<le> snd a) (sort_desc (com_valor s) @ sem_valor s)"
proof -
  have "\<forall>x \<in> set (sort_desc (com_valor s)). \<forall>y \<in> set (sem_valor s). snd y \<le> snd x"
    by (simp add: sem_valor_def)
  then show ?thesis
    unfolding sorted_wrt_append
    using sort_desc_descending [of "com_valor s"] sem_valor_constante [of s] by blast
qed

lemma take_drop_sorted_wrt:
  assumes "sorted_wrt P xs" and "x \<in> set (take n xs)" and "y \<in> set (drop n xs)"
  shows "P x y"
proof -
  from assms(1) have "sorted_wrt P (take n xs @ drop n xs)" by simp
  with assms(2,3) show ?thesis unfolding sorted_wrt_append by blast
qed

lemma nlargest_length: "length (nlargest n s) = min n (length s)"
proof -
  have "length (sort_desc (com_valor s) @ sem_valor s) = length s"
    using mset_ordenado [of s] by (metis size_mset)
  then show ?thesis by (simp add: nlargest_def min.commute)
qed

lemma nlargest_subset: "set (nlargest n s) \<subseteq> set s"
proof -
  have "set (sort_desc (com_valor s) @ sem_valor s) = set s"
    using mset_ordenado [of s] by (metis set_mset_mset)
  then show ?thesis unfolding nlargest_def by (metis set_take_subset)
qed

lemma nlargest_distinct:
  assumes "distinct (map fst s)"
  shows "distinct (map fst (nlargest n s))"
proof -
  have "mset (map fst (sort_desc (com_valor s) @ sem_valor s)) = mset (map fst s)"
    using mset_ordenado [of s] by (metis mset_map)
  with assms have "distinct (map fst (sort_desc (com_valor s) @ sem_valor s))"
    by (metis mset_eq_imp_distinct_iff)
  then show ?thesis
    unfolding nlargest_def take_map [symmetric] by (rule distinct_take)
qed

lemma nlargest_largest:
  assumes "x \<in> set s" and "x \<notin> set (nlargest n s)" and "y \<in> set (nlargest n s)"
  shows "snd x \<le> snd y"
proof -
  let ?l = "sort_desc (com_valor s) @ sem_valor s"
  have "set ?l = set s" using mset_ordenado [of s] by (metis set_mset_mset)
  then have "set (take n ?l) \<union> set (drop n ?l) = set s"
    by (metis append_take_drop_id set_append)
  with assms(1) have "x \<in> set (take n ?l) \<or> x \<in> set (drop n ?l)" by blast
  with assms(2) have "x \<in> set (drop n ?l)" unfolding nlargest_def by blast
  moreover from assms(3) have "y \<in> set (take n ?l)" unfolding nlargest_def .
  ultimately show ?thesis
    using take_drop_sorted_wrt [OF ordenado_descending] by blast
qed

lemma sort_values_ascending: "sorted_wrt ordem_exibicao (map snd (sort_values s))"
proof -
  have "sorted (map snd (sort_key snd (com_valor s)))" by (rule sorted_sort_key)
  then have "sorted_wrt (\<lambda>a b. snd a \<le> snd b) (sort_key snd (com_valor s))"
    by (simp add: sorted_map)
  then have a: "sorted_wrt (\<lambda>a b. ordem_exibicao (snd a) (snd b)) (sort_key snd (com_valor s))"
    by (rule sorted_wrt_mono_rel [rotated]) (auto simp: ordem_exibicao_def com_valor_def)
  have b: "sorted_wrt (\<lambda>a b. ordem_exibicao (snd a) (snd b)) (sem_valor s)"
    by (induction s) (auto simp: sem_valor_def ordem_exibicao_def)
  have c: "\<forall>x \<in> set (sort_key snd (com_valor s)). \<forall>y \<in> set (sem_valor s).
      ordem_exibicao (snd x) (snd y)"
    by (auto simp: sem_valor_def ordem_exibicao_def)
  from a b c show ?thesis
    by (simp add: sort_values_def sorted_wrt_map sorted_wrt_append del: map_append)
qed

lemma set_sort_values [simp]: "set (sort_values s) = set s"
  using mset_sort_values [of s] by (metis set_mset_mset)

lemma length_sort_values [simp]: "length (sort_values s) = length s"
  using mset_sort_values [of s] by (metis size_mset)

lemma distinct_sort_values:
  assumes "distinct (map fst s)"
  shows "distinct (map fst (sort_values s))"
proof -
  have "mset (map fst (sort_values s)) = mset (map fst s)"
    using mset_sort_values [of s] by (metis mset_map)
  with assms show ?thesis by (metis mset_eq_imp_distinct_iff)
qed

lemma media_por_cargo_eq:
  assumes "''cargo'' \<in> set (columns d)" and "''usd'' \<in> set (columns d)"
  shows "media_por_cargo d =
     Inr (gb_mean (groupby isna1 (map cargo (rows d)) (map usd (rows d))))"
  by (simp add: media_por_cargo_def coluna_presente assms)

lemma top_cargos_onze:
  "top_cargos df_onze =
     Inr [(Some ''T02'', Some 20000), (Some ''T11'', Some 30000), (Some ''T04'', Some 40000),
          (Some ''T05'', Some 50000), (Some ''T06'', Some 60000), (Some ''T07'', Some 70000),
          (Some ''T08'', Some 80000), (Some ''T09'', Some 90000), (Some ''T10'', Some 100000),
          (Some ''T03'', Some 110000)]"
  by (simp add: top_cargos_def media_por_cargo_def coluna_def df_onze_def colunas_csv_def
      registro_exemplo_def gb_mean_def groupby_def isna1_def mean_def nlargest_def sort_values_def
      sort_desc_def com_valor_def sem_valor_def)

lemma media_por_cargo_onze:
  "media_por_cargo df_onze =
     Inr [(Some ''T01'', Some 15000), (Some ''T02'', Some 20000), (Some ''T03'', Some 110000),
          (Some ''T04'', Some 40000), (Some ''T05'', Some 50000), (Some ''T06'', Some 60000),
          (Some ''T07'', Some 70000), (Some ''T08'', Some 80000), (Some ''T09'', Some 90000),
          (Some ''T10'', Some 100000), (Some ''T11'', Some 30000)]"
  by (simp add: media_por_cargo_def coluna_def df_onze_def colunas_csv_def
      registro_exemplo_def gb_mean_def groupby_def isna1_def mean_def)

text \<open>
  Claim C2.  With the columns \<open>cargo\<close> and \<open>usd\<close> present, the pipeline returns a
  table \<open>t\<close> built from the table \<open>g\<close> of the mean salary per title: \<open>t\<close> has ten rows,
  or all rows of \<open>g\<close> when there are fewer; every row of \<open>t\<close> is a row of \<open>g\<close> and no
  title occurs twice; every row of \<open>g\<close> left out has a mean not above the mean of any
  row kept (a missing mean counting as lowest); \<open>t\<close> is in ascending order of the mean,
  missing means last; and the title list of the box plot names the same titles.
\<close>

theorem top_cargos_top10:
  assumes "''cargo'' \<in> set (columns d)" and "''usd'' \<in> set (columns d)"
  shows
    "\<exists>g t l. media_por_cargo d = Inr g \<and>
       agregado isna1 cargo (\<lambda>rs. mean (map usd rs)) (rows d) g \<and>
       top_cargos d = Inr t \<and>
       grafico_cargos d = Inr (if rows d = [] then Aviso else Grafico t) \<and>
       length t = min 10 (length g) \<and>
       distinct (map fst t) \<and>
       set t \<subseteq> set g \<and>
       (\<forall>x \<in> set g - set t. \<forall>y \<in> set t. snd x \<le> snd y) \<and>
       sorted_wrt ordem_exibicao (map snd t) \<and>
       top10_cargos d = Inr l \<and> set l = fst ` set t \<and> distinct l"
proof -
  let ?g = "gb_mean (groupby isna1 (map cargo (rows d)) (map usd (rows d)))"
  let ?t = "sort_values (nlargest 10 ?g)"
  let ?l = "map fst (nlargest 10 ?g)"
  have g: "media_por_cargo d = Inr ?g" by (rule media_por_cargo_eq [OF assms])
  have ag: "agregado isna1 cargo (\<lambda>rs. mean (map usd rs)) (rows d) ?g"
    by (rule agregado_gb_mean)
  then have dg: "distinct (map fst ?g)" by (simp add: agregado_def)
  have t: "top_cargos d = Inr ?t" by (simp add: top_cargos_def g)
  from assms(1) have "columns d \<noteq> []" by auto
  then have gr: "grafico_cargos d = Inr (if rows d = [] then Aviso else Grafico ?t)"
    by (simp add: grafico_cargos_def df_empty_def t)
  have len: "length ?t = min 10 (length ?g)" by (simp add: nlargest_length)
  have dt: "distinct (map fst ?t)"
    by (rule distinct_sort_values [OF nlargest_distinct [OF dg]])
  have sub: "set ?t \<subseteq> set ?g" by (simp add: nlargest_subset)
  have big: "\<forall>x \<in> set ?g - set ?t. \<forall>y \<in> set ?t. snd x \<le> snd y"
    by (auto intro: nlargest_largest)
  have asc: "sorted_wrt ordem_exibicao (map snd ?t)" by (rule sort_values_ascending)
  have l: "top10_cargos d = Inr ?l" by (simp add: top10_cargos_def g)
  have sl: "set ?l = fst ` set ?t" by simp
  have dl: "distinct ?l" by (rule nlargest_distinct [OF dg])
  from g ag t gr len dt sub big asc l sl dl show ?thesis by blast
qed

theorem top_cargos_top10_witness:
  "''cargo'' \<in> set (columns df_onze) \<and> ''usd'' \<in> set (columns df_onze) \<and>
   length (rows df_onze) = 12 \<and>
   top_cargos df_onze =
     Inr [(Some ''T02'', Some 20000), (Some ''T11'', Some 30000), (Some ''T04'', Some 40000),
          (Some ''T05'', Some 50000), (Some ''T06'', Some 60000), (Some ''T07'', Some 70000),
          (Some ''T08'', Some 80000), (Some ''T09'', Some 90000), (Some ''T10'', Some 100000),
          (Some ''T03'', Some 110000)] \<and>
   sorted_wrt ordem_exibicao
     (map snd
       [(Some ''T02'', Some (20000::rat)), (Some ''T11'', Some 30000),
        (Some ''T04'', Some 40000), (Some ''T05'', Some 50000), (Some ''T06'', Some 60000),
        (Some ''T07'', Some 70000), (Some ''T08'', Some 80000), (Some ''T09'', Some 90000),
        (Some ''T10'', Some 100000), (Some ''T03'', Some 110000)]) \<and>
   agregado isna1 cargo (\<lambda>rs. mean (map usd rs)) (rows df_onze)
     [(Some ''T01'', Some 15000), (Some ''T02'', Some 20000), (Some ''T03'', Some 110000),
      (Some ''T04'', Some 40000), (Some ''T05'', Some 50000), (Some ''T06'', Some 60000),
      (Some ''T07'', Some 70000), (Some ''T08'', Some 80000), (Some ''T09'', Some 90000),
      (Some ''T10'', Some 100000), (Some ''T11'', Some 30000)]"
proof -
  have c: "''cargo'' \<in> set (columns df_onze)" "''usd'' \<in> set (columns df_onze)"
    by (simp_all add: df_onze_def colunas_csv_def)
  have n: "length (rows df_onze) = 12" by (simp add: df_onze_def)
  from top_cargos_top10 [OF c] obtain g t where
    g: "media_por_cargo df_onze = Inr g" and
    ag: "agregado isna1 cargo (\<lambda>rs. mean (map usd rs)) (rows df_onze) g" and
    t: "top_cargos df_onze = Inr t" and
    asc: "sorted_wrt ordem_exibicao (map snd t)"
    by blast
  from g have g': "g = [(Some ''T01'', Some 15000), (Some ''T02'', Some 20000),
      (Some ''T03'', Some 110000),
      (Some ''T04'', Some 40000), (Some ''T05'', Some 50000), (Some ''T06'', Some 60000),
      (Some ''T07'', Some 70000), (Some ''T08'', Some 80000), (Some ''T09'', Some 90000),
      (Some ''T10'', Some 100000), (Some ''T11'', Some 30000)]"
    by (simp add: media_por_cargo_onze)
  from t have t': "t = [(Some ''T02'', Some 20000), (Some ''T11'', Some 30000),
          (Some ''T04'', Some 40000),
          (Some ''T05'', Some 50000), (Some ''T06'', Some 60000), (Some ''T07'', Some 70000),
          (Some ''T08'', Some 80000), (Some ''T09'', Some 90000), (Some ''T10'', Some 100000),
          (Some ''T03'', Some 110000)]"
    by (simp add: top_cargos_onze)
  from c n top_cargos_onze asc [unfolded t'] ag [unfolded g'] show ?thesis by blast
qed

section \<open>Heatmap\<close>

lemma posicao_Some:
  assumes "x \<in> set xs"
  shows "\<exists>a. posicao x xs = Some a \<and> a < length xs \<and> xs ! a = x"
  using assms by (induction xs) auto

lemma pivot_distinct:
  assumes "distinct (map fst es)"
  shows "pivot es =
     Inr \<lparr>m_index = sort (unique (map (\<lambda>e. fst (fst e)) es)),
          m_columns = sort (unique (map (\<lambda>e. snd (fst e)) es)),
          m_values =
            map (\<lambda>i. map (\<lambda>j. case map_of es (i, j) of None \<Rightarrow> None | Some v \<Rightarrow> v)
                         (sort (unique (map (\<lambda>e. snd (fst e)) es))))
              (sort (unique (map (\<lambda>e. fst (fst e)) es)))\<rparr>"
  using assms by (simp add: pivot_def Let_def)

lemma loc_pivot:
  assumes "pivot es = Inr m" and "i \<in> set (m_index m)" and "j \<in> set (m_columns m)"
  shows "loc m i j = Inr (case map_of es (i, j) of None \<Rightarrow> None | Some v \<Rightarrow> v)"
proof -
  from assms(1) have d: "distinct (map fst es)"
    by (auto simp: pivot_def split: if_splits)
  note m = assms(1) [unfolded pivot_distinct [OF d]]
  from m have v: "m_values m =
      map (\<lambda>i. map (\<lambda>j. case map_of es (i, j) of None \<Rightarrow> None | Some v \<Rightarrow> v) (m_columns m))
        (m_index m)"
    by auto
  from posicao_Some [OF assms(2)] obtain a where
    a: "posicao i (m_index m) = Some a" "a < length (m_index m)" "m_index m ! a = i" by blast
  from posicao_Some [OF assms(3)] obtain b where
    b: "posicao j (m_columns m) = Some b" "b < length (m_columns m)" "m_columns m ! b = j"
    by blast
  from a b show ?thesis by (simp add: loc_def v)
qed

lemma map_of_agregado:
  assumes "agregado isna chave agg rs t"
  shows "map_of t k =
     (if k \<in> chave ` set rs \<and> \<not> isna k then Some (agg (filter (\<lambda>r. chave r = k) rs)) else None)"
proof (cases "k \<in> fst ` set t")
  case True
  then obtain v where v: "(k, v) \<in> set t" by force
  with assms have "v = agg (filter (\<lambda>r. chave r = k) rs)"
    by (auto simp: agregado_def)
  moreover from assms have "distinct (map fst t)" by (simp add: agregado_def)
  then have "map_of t k = Some v" using v by (rule map_of_is_SomeI)
  moreover from True assms have "k \<in> chave ` set rs \<and> \<not> isna k"
    by (auto simp: agregado_def)
  ultimately show ?thesis by simp
next
  case False
  then have "map_of t k = None" by (simp add: map_of_eq_None_iff)
  moreover from False assms have "\<not> (k \<in> chave ` set rs \<and> \<not> isna k)"
    by (auto simp: agregado_def)
  ultimately show ?thesis by simp
qed

lemma media_sen_con_eq:
  assumes "''senioridade'' \<in> set (columns d)" and "''contrato'' \<in> set (columns d)"
    and "''usd'' \<in> set (columns d)"
  shows "media_sen_con d =
     Inr (gb_mean (groupby isna2 (map (\<lambda>r. (senioridade r, contrato r)) (rows d))
       (map usd (rows d))))"
  by (simp add: media_sen_con_def coluna_presente assms zip_columns)

lemma piv_heat:
  "piv df_heat =
     Inr \<lparr>m_index = [Some ''junior'', Some ''senior''],
          m_columns = [Some ''integral'', Some ''parcial''],
          m_values = [[None, Some 50000], [Some 150000, None]]\<rparr>"
  by (simp add: piv_def media_sen_con_def coluna_def df_heat_def colunas_csv_def
      registro_exemplo_def gb_mean_def groupby_def isna2_def mean_def pivot_def)

text \<open>
  Claim C3.  With the columns \<open>senioridade\<close>, \<open>contrato\<close> and \<open>usd\<close> present, the
  pipeline returns a matrix (the pivot raises nothing).  Its row labels are the
  seniorities and its column labels the contract types of the records that have both
  values, each label once, ascending.  The cell at a row label and a column label is
  the mean salary of the records with that pair when such a record exists, and is
  missing, not 0, when none exists.
\<close>

theorem piv_heatmap:
  assumes "''senioridade'' \<in> set (columns d)" and "''contrato'' \<in> set (columns d)"
    and "''usd'' \<in> set (columns d)"
  shows
    "\<exists>m. piv d = Inr m \<and>
       sorted (m_index m) \<and> distinct (m_index m) \<and>
       set (m_index m) =
         {s. s \<noteq> None \<and> (\<exists>r \<in> set (rows d). senioridade r = s \<and> contrato r \<noteq> None)} \<and>
       sorted (m_columns m) \<and> distinct (m_columns m) \<and>
       set (m_columns m) =
         {c. c \<noteq> None \<and> (\<exists>r \<in> set (rows d). contrato r = c \<and> senioridade r \<noteq> None)} \<and>
       (\<forall>i \<in> set (m_index m). \<forall>j \<in> set (m_columns m).
          loc m i j =
            Inr (if \<exists>r \<in> set (rows d). senioridade r = i \<and> contrato r = j
                 then mean (map usd (filter (\<lambda>r. senioridade r = i \<and> contrato r = j) (rows d)))
                 else None))"
proof -
  let ?k = "\<lambda>r. (senioridade r, contrato r)"
  let ?g = "gb_mean (groupby isna2 (map ?k (rows d)) (map usd (rows d)))"
  have g: "media_sen_con d = Inr ?g" by (rule media_sen_con_eq [OF assms])
  have ag: "agregado isna2 ?k (\<lambda>rs. mean (map usd rs)) (rows d) ?g"
    by (rule agregado_gb_mean)
  then have dg: "distinct (map fst ?g)" by (simp add: agregado_def)
  from ag have ks: "fst ` set ?g = {k \<in> ?k ` set (rows d). \<not> isna2 k}"
    by (simp add: agregado_def)
  obtain m where m: "pivot ?g = Inr m" using pivot_distinct [OF dg] by blast
  then have p: "piv d = Inr m" by (simp add: piv_def g)
  from m have idx: "m_index m = sort (unique (map (\<lambda>e. fst (fst e)) ?g))"
    and cols: "m_columns m = sort (unique (map (\<lambda>e. snd (fst e)) ?g))"
    unfolding pivot_distinct [OF dg] by auto
  have "set (m_index m) = fst ` fst ` set ?g" by (simp add: idx image_image)
  also have "\<dots> = {s. s \<noteq> None \<and> (\<exists>r \<in> set (rows d). senioridade r = s \<and> contrato r \<noteq> None)}"
    unfolding ks by (force simp: isna2_def)
  finally have si: "set (m_index m) =
      {s. s \<noteq> None \<and> (\<exists>r \<in> set (rows d). senioridade r = s \<and> contrato r \<noteq> None)}" .
  have "set (m_columns m) = snd ` fst ` set ?g" by (simp add: cols image_image)
  also have "\<dots> = {c. c \<noteq> None \<and> (\<exists>r \<in> set (rows d). contrato r = c \<and> senioridade r \<noteq> None)}"
    unfolding ks by (force simp: isna2_def)
  finally have sc: "set (m_columns m) =
      {c. c \<noteq> None \<and> (\<exists>r \<in> set (rows d). contrato r = c \<and> senioridade r \<noteq> None)}" .
  have cell: "loc m i j =
        Inr (if \<exists>r \<in> set (rows d). senioridade r = i \<and> contrato r = j
             then mean (map usd (filter (\<lambda>r. senioridade r = i \<and> contrato r = j) (rows d)))
             else None)"
    if i: "i \<in> set (m_index m)" and j: "j \<in> set (m_columns m)" for i j
  proof -
    from i si have "i \<noteq> None" by simp
    moreover from j sc have "j \<noteq> None" by simp
    ultimately have n: "\<not> isna2 (i, j)" by (simp add: isna2_def)
    have f: "filter (\<lambda>r. ?k r = (i, j)) (rows d) =
        filter (\<lambda>r. senioridade r = i \<and> contrato r = j) (rows d)"
      by (simp add: prod_eq_iff)
    have e: "(i, j) \<in> ?k ` set (rows d) \<longleftrightarrow>
        (\<exists>r \<in> set (rows d). senioridade r = i \<and> contrato r = j)"
      by force
    show ?thesis
      unfolding loc_pivot [OF m i j] map_of_agregado [OF ag] f e using n by auto
  qed
  from p si sc cell show ?thesis by (auto simp: idx cols)
qed

theorem piv_heatmap_witness:
  "''senioridade'' \<in> set (columns df_heat) \<and> ''contrato'' \<in> set (columns df_heat) \<and>
   ''usd'' \<in> set (columns df_heat) \<and>
   piv df_heat =
     Inr \<lparr>m_index = [Some ''junior'', Some ''senior''],
          m_columns = [Some ''integral'', Some ''parcial''],
          m_values = [[None, Some 50000], [Some 150000, None]]\<rparr> \<and>
   loc \<lparr>m_index = [Some ''junior'', Some ''senior''],
        m_columns = [Some ''integral'', Some ''parcial''],
        m_values = [[None, Some 50000], [Some 150000, None]]\<rparr>
     (Some ''senior'') (Some ''integral'') = Inr (Some 150000) \<and>
   loc \<lparr>m_index = [Some ''junior'', Some ''senior''],
        m_columns = [Some ''integral'', Some ''parcial''],
        m_values = [[None, Some 50000], [Some 150000, None]]\<rparr>
     (Some ''senior'') (Some ''parcial'') = Inr None"
proof -
  let ?m = "\<lparr>m_index = [Some ''junior'', Some ''senior''],
        m_columns = [Some ''integral'', Some ''parcial''],
        m_values = [[None, Some (50000::rat)], [Some 150000, None]]\<rparr>"
  have c: "''senioridade'' \<in> set (columns df_heat)" "''contrato'' \<in> set (columns df_heat)"
    "''usd'' \<in> set (columns df_heat)"
    by (simp_all add: df_heat_def colunas_csv_def)
  from piv_heatmap [OF c] obtain m where m: "piv df_heat = Inr m" and
    cell: "\<forall>i \<in> set (m_index m). \<forall>j \<in> set (m_columns m).
          loc m i j =
            Inr (if \<exists>r \<in> set (rows df_heat). senioridade r = i \<and> contrato r = j
                 then mean (map usd (filter (\<lambda>r. senioridade r = i \<and> contrato r = j)
                   (rows df_heat)))
                 else None)"
    by (elim exE conjE) blast
  from m have m': "m = ?m" by (simp add: piv_heat)
  from cell have "loc ?m (Some ''senior'') (Some ''integral'') =
      Inr (if \<exists>r \<in> set (rows df_heat). senioridade r = Some ''senior'' \<and>
                contrato r = Some ''integral''
           then mean (map usd (filter (\<lambda>r. senioridade r = Some ''senior'' \<and>
                  contrato r = Some ''integral'') (rows df_heat)))
           else None)"
    unfolding m' by simp
  then have a: "loc ?m (Some ''senior'') (Some ''integral'') = Inr (Some 150000)"
    by (simp add: df_heat_def registro_exemplo_def mean_def)
  from cell have "loc ?m (Some ''senior'') (Some ''parcial'') =
      Inr (if \<exists>r \<in> set (rows df_heat). senioridade r = Some ''senior'' \<and>
                contrato r = Some ''parcial''
           then mean (map usd (filter (\<lambda>r. senioridade r = Some ''senior'' \<and>
                  contrato r = Some ''parcial'') (rows df_heat)))
           else None)"
    unfolding m' by simp
  then have b: "loc ?m (Some ''senior'') (Some ''parcial'') = Inr None"
    by (simp add: df_heat_def registro_exemplo_def)
  from c piv_heat a b show ?thesis by blast
qed

section \<open>Missing grouping keys\<close>

lemma tabela_por_chaves:
  assumes "\<forall>kv \<in> set t. snd kv = h (fst kv)"
  shows "t = map (\<lambda>k. (k, h k)) (map fst t)"
proof -
  have "map (\<lambda>kv. (fst kv, h (fst kv))) t = t"
    by (rule map_idI) (use assms in \<open>simp add: prod_eq_iff\<close>)
  then show ?thesis by (simp add: comp_def)
qed

lemma agregado_unique:
  assumes "agregado isna f agg rs t" and "agregado isna f agg rs u"
  shows "t = u"
proof -
  from assms have "sorted (map fst t)" "distinct (map fst t)"
    "sorted (map fst u)" "distinct (map fst u)" "set (map fst t) = set (map fst u)"
    by (simp_all add: agregado_def)
  then have k: "map fst t = map fst u" by (rule sorted_distinct_set_unique)
  from assms have a: "\<forall>kv \<in> set t. snd kv = agg (filter (\<lambda>r. f r = fst kv) rs)"
    and b: "\<forall>kv \<in> set u. snd kv = agg (filter (\<lambda>r. f r = fst kv) rs)"
    by (simp_all add: agregado_def)
  have "t = map (\<lambda>k. (k, agg (filter (\<lambda>r. f r = k) rs))) (map fst t)"
    using a by (rule tabela_por_chaves)
  also have "\<dots> = map (\<lambda>k. (k, agg (filter (\<lambda>r. f r = k) rs))) (map fst u)"
    by (simp only: k)
  also have "\<dots> = u"
    using b by (rule tabela_por_chaves [symmetric])
  finally show ?thesis .
qed

lemma agregado_sem_nulos:
  assumes "agregado isna f agg rs t"
  shows "agregado isna f agg (filter (\<lambda>r. \<not> isna (f r)) rs) t"
proof -
  have k: "{k \<in> f ` set (filter (\<lambda>r. \<not> isna (f r)) rs). \<not> isna k} = {k \<in> f ` set rs. \<not> isna k}"
    by auto
  have v: "filter (\<lambda>r. f r = k) (filter (\<lambda>r. \<not> isna (f r)) rs) = filter (\<lambda>r. f r = k) rs"
    if "\<not> isna k" for k
    unfolding filter_filter by (rule filter_cong) (use that in auto)
  have "snd kv = agg (filter (\<lambda>r. f r = fst kv) (filter (\<lambda>r. \<not> isna (f r)) rs))"
    if "kv \<in> set t" for kv
  proof -
    from assms that have "fst kv \<in> {k \<in> f ` set rs. \<not> isna k}"
      unfolding agregado_def by (metis image_eqI set_map)
    then have "\<not> isna (fst kv)" by simp
    from v [OF this] assms that show ?thesis
      unfolding agregado_def by simp
  qed
  with assms show ?thesis
    unfolding agregado_def k by blast
qed

lemma agregado_chaves:
  assumes "agregado isna f agg rs t"
  shows "list_all (\<lambda>kv. \<not> isna (fst kv)) t"
proof -
  have "\<not> isna (fst kv)" if "kv \<in> set t" for kv
  proof -
    from assms that have "fst kv \<in> {k \<in> f ` set rs. \<not> isna k}"
      unfolding agregado_def by (metis image_eqI set_map)
    then show ?thesis by simp
  qed
  then show ?thesis by (simp add: list_all_iff)
qed

lemma groupby_sem_nulos:
  "map (\<lambda>kv. (fst kv, agg (snd kv)))
     (groupby isna (map f (filter (\<lambda>r. \<not> isna (f r)) rs))
        (map val (filter (\<lambda>r. \<not> isna (f r)) rs))) =
   map (\<lambda>kv. (fst kv, agg (snd kv))) (groupby isna (map f rs) (map val rs))"
proof -
  let ?rs = "filter (\<lambda>r. \<not> isna (f r)) rs"
  have a: "agregado isna f (\<lambda>g. agg (map val g)) ?rs
      (map (\<lambda>kv. (fst kv, agg (snd kv))) (groupby isna (map f ?rs) (map val ?rs)))"
    by (rule agregado_groupby)
  have "agregado isna f (\<lambda>g. agg (map val g)) rs
      (map (\<lambda>kv. (fst kv, agg (snd kv))) (groupby isna (map f rs) (map val rs)))"
    by (rule agregado_groupby)
  then have b: "agregado isna f (\<lambda>g. agg (map val g)) ?rs
      (map (\<lambda>kv. (fst kv, agg (snd kv))) (groupby isna (map f rs) (map val rs)))"
    by (rule agregado_sem_nulos)
  from a b show ?thesis by (rule agregado_unique)
qed

lemma isna2_filter:
  "filter (\<lambda>r. f r \<noteq> None \<and> g r \<noteq> None) rs = filter (\<lambda>r. \<not> isna2 (f r, g r)) rs"
  by (simp add: isna2_def)

lemma df_sun_eq:
  assumes "''senioridade'' \<in> set (columns d)" and "''contrato'' \<in> set (columns d)"
  shows "df_sun d =
     Inr (gb_size (groupby isna2 (map (\<lambda>r. (senioridade r, contrato r)) (rows d)) (rows d)))"
  by (simp add: df_sun_def coluna_presente assms zip_columns)

lemma df_anim_eq:
  assumes "''cargo'' \<in> set (columns d)" and "''ano'' \<in> set (columns d)"
    and "''residencia_iso3'' \<in> set (columns d)" and "''usd'' \<in> set (columns d)"
  shows "df_anim d sel =
     Inr (gb_mean (groupby isna2
       (map (\<lambda>r. (ano r, residencia_iso3 r)) (filter (\<lambda>r. cargo r \<noteq> None \<and> cargo r = sel) (rows d)))
       (map usd (filter (\<lambda>r. cargo r \<noteq> None \<and> cargo r = sel) (rows d)))))"
proof -
  define rs where "rs = filter (\<lambda>r. cargo r \<noteq> None \<and> cargo r = sel) (rows d)"
  define t where "t = gb_mean (groupby isna2 (map (\<lambda>r. (ano r, residencia_iso3 r)) rs) (map usd rs))"
  have "agregado isna2 (\<lambda>r. (ano r, residencia_iso3 r)) (\<lambda>g. mean (map usd g)) rs t"
    unfolding t_def by (rule agregado_gb_mean)
  then have "sorted (map fst t)" by (simp add: agregado_def)
  then have s: "sort_key fst t = t" by (rule sort_key_id_if_sorted)
  have b: "bool_index d (map (\<lambda>v. v \<noteq> None \<and> v = sel) (map cargo (rows d))) = d\<lparr>rows := rs\<rparr>"
    unfolding rs_def by (simp add: bool_index_map comp_def)
  have c: "''ano'' \<in> set (columns (d\<lparr>rows := rs\<rparr>))"
    "''residencia_iso3'' \<in> set (columns (d\<lparr>rows := rs\<rparr>))"
    "''usd'' \<in> set (columns (d\<lparr>rows := rs\<rparr>))"
    using assms by simp_all
  have "df_anim d sel = Inr (sort_key fst t)"
    unfolding df_anim_def coluna_presente [OF assms(1)] ebind_Inr Let_def b
      coluna_presente [OF c(1)] coluna_presente [OF c(2)] coluna_presente [OF c(3)] t_def
    by (simp add: zip_columns)
  then show ?thesis unfolding s unfolding t_def rs_def .
qed

lemma top5_cargos_eq:
  assumes "''cargo'' \<in> set (columns d)"
  shows "top5_cargos d =
     Inr (map fst (nlargest_count 5 (value_counts (map cargo (rows d)))))"
  by (simp add: top5_cargos_def coluna_presente assms)

lemma df_linha_eq:
  assumes "''cargo'' \<in> set (columns d)" and "''ano'' \<in> set (columns d)"
    and "''usd'' \<in> set (columns d)" and "top5_cargos d = Inr t5"
  shows "df_linha d =
     Inr (gb_median (groupby isna2
       (map (\<lambda>r. (ano r, cargo r)) (filter (\<lambda>r. cargo r \<in> set t5) (rows d)))
       (map usd (filter (\<lambda>r. cargo r \<in> set t5) (rows d)))))"
proof -
  define rs where "rs = filter (\<lambda>r. cargo r \<in> set t5) (rows d)"
  have b: "bool_index d (isin (map cargo (rows d)) t5) = d\<lparr>rows := rs\<rparr>"
    unfolding rs_def by (simp add: isin_map bool_index_map)
  have c: "''ano'' \<in> set (columns (d\<lparr>rows := rs\<rparr>))"
    "''cargo'' \<in> set (columns (d\<lparr>rows := rs\<rparr>))"
    "''usd'' \<in> set (columns (d\<lparr>rows := rs\<rparr>))"
    using assms by simp_all
  have "df_linha d =
      Inr (gb_median (groupby isna2 (map (\<lambda>r. (ano r, cargo r)) rs) (map usd rs)))"
    unfolding df_linha_def assms(4) coluna_presente [OF assms(1)] ebind_Inr Let_def b
      coluna_presente [OF c(1)] coluna_presente [OF c(2)] coluna_presente [OF c(3)]
    by (simp add: zip_columns)
  then show ?thesis unfolding rs_def .
qed

lemma gb_mean_sem_nulos:
  "gb_mean (groupby isna2
     (map (\<lambda>r. (f r, g r)) (filter (\<lambda>r. f r \<noteq> None \<and> g r \<noteq> None) rs))
     (map val (filter (\<lambda>r. f r \<noteq> None \<and> g r \<noteq> None) rs))) =
   gb_mean (groupby isna2 (map (\<lambda>r. (f r, g r)) rs) (map val rs))"
  unfolding gb_mean_def isna2_filter
  by (rule groupby_sem_nulos [where agg = mean and isna = isna2 and f = "\<lambda>r. (f r, g r)"])

lemma gb_size_sem_nulos:
  "gb_size (groupby isna2
     (map (\<lambda>r. (f r, g r)) (filter (\<lambda>r. f r \<noteq> None \<and> g r \<noteq> None) rs))
     (filter (\<lambda>r. f r \<noteq> None \<and> g r \<noteq> None) rs)) =
   gb_size (groupby isna2 (map (\<lambda>r. (f r, g r)) rs) rs)"
  using groupby_sem_nulos
    [where agg = length and isna = isna2 and f = "\<lambda>r. (f r, g r)" and val = "\<lambda>r. r" and rs = rs]
  unfolding gb_size_def isna2_filter by simp

lemma df_treemap_campo:
  assumes "set colunas_abas \<subseteq> set (columns d)"
  shows "df_treemap d =
     Inr (coluna_pais d,
          gb_mean (groupby isna2 (map (\<lambda>r. (campo_pais d r, cargo r)) (rows d)) (map usd (rows d))))"
proof -
  from assms have c: "''cargo'' \<in> set (columns d)" "''usd'' \<in> set (columns d)"
    "''residencia_iso3'' \<in> set (columns d)"
    by (simp_all add: colunas_abas_def)
  show ?thesis
  proof (cases "''residencia'' \<in> set (columns d)")
    case True
    then show ?thesis
      by (simp add: df_treemap_nome c coluna_pais_def campo_pais_def)
  next
    case False
    then show ?thesis
      by (simp add: df_treemap_iso3 c coluna_pais_def campo_pais_def)
  qed
qed

lemma sem_nulo_simps [simp]:
  "columns (sem_nulo f g d) = columns d"
  "rows (sem_nulo f g d) = filter (\<lambda>r. f r \<noteq> None \<and> g r \<noteq> None) (rows d)"
  by (simp_all add: sem_nulo_def)

lemma campo_pais_sem_nulo [simp]: "campo_pais (sem_nulo f g d) = campo_pais d"
  by (simp add: campo_pais_def)

lemma coluna_pais_sem_nulo [simp]: "coluna_pais (sem_nulo f g d) = coluna_pais d"
  by (simp add: coluna_pais_def)

lemma pivot_rotulos:
  assumes "pivot es = Inr m" and "list_all (\<lambda>kv. \<not> isna2 (fst kv)) es"
  shows "None \<notin> set (m_index m) \<and> None \<notin> set (m_columns m)"
proof -
  from assms(1) have d: "distinct (map fst es)"
    by (auto simp: pivot_def split: if_splits)
  from assms(1) have "m_index m = sort (unique (map (\<lambda>e. fst (fst e)) es))"
    and "m_columns m = sort (unique (map (\<lambda>e. snd (fst e)) es))"
    unfolding pivot_distinct [OF d] by auto
  with assms(2) show ?thesis
    by (auto simp: list_all_iff isna2_def)
qed

text \<open>
  Claim C10.  With the columns of the tabs present, each of the five group-by pipelines
  returns a table in which no row has a missing key component.  The treemap, sunburst,
  heatmap and animated-map tables, and the heatmap matrix, are the same when the
  records that miss a grouping value are removed from the view beforehand; the table
  of the line chart is the grouped table of the records of the five most frequent
  titles that have both a year and a title.  So a record with a missing grouping value
  is in no group, and there is no group for missing values.
\<close>

theorem groupby_exclui_chave_nula:
  assumes "set colunas_abas \<subseteq> set (columns d)"
  shows
    "(\<exists>t. df_treemap d = Inr (coluna_pais d, t) \<and>
        list_all (\<lambda>kv. \<not> isna2 (fst kv)) t \<and>
        df_treemap (sem_nulo (campo_pais d) cargo d) = df_treemap d) \<and>
     (\<exists>t. df_sun d = Inr t \<and>
        list_all (\<lambda>kv. \<not> isna2 (fst kv)) t \<and>
        df_sun (sem_nulo senioridade contrato d) = df_sun d) \<and>
     (\<exists>t m. media_sen_con d = Inr t \<and> piv d = Inr m \<and>
        list_all (\<lambda>kv. \<not> isna2 (fst kv)) t \<and>
        None \<notin> set (m_index m) \<and> None \<notin> set (m_columns m) \<and>
        piv (sem_nulo senioridade contrato d) = piv d) \<and>
     (\<exists>t5 t. top5_cargos d = Inr t5 \<and> df_linha d = Inr t \<and>
        list_all (\<lambda>kv. \<not> isna2 (fst kv)) t \<and>
        agregado isna2 (\<lambda>r. (ano r, cargo r)) (\<lambda>g. median (map usd g))
          (filter (\<lambda>r. ano r \<noteq> None \<and> cargo r \<noteq> None)
            (filter (\<lambda>r. cargo r \<in> set t5) (rows d))) t) \<and>
     (\<forall>sel. \<exists>t. df_anim d sel = Inr t \<and>
        list_all (\<lambda>kv. \<not> isna2 (fst kv)) t \<and>
        df_anim (sem_nulo ano residencia_iso3 d) sel = df_anim d sel)"
proof (intro conjI allI)
  from assms have c: "''cargo'' \<in> set (columns d)" "''usd'' \<in> set (columns d)"
    "''senioridade'' \<in> set (columns d)" "''contrato'' \<in> set (columns d)"
    "''ano'' \<in> set (columns d)" "''residencia_iso3'' \<in> set (columns d)"
    by (simp_all add: colunas_abas_def)
  show "\<exists>t. df_treemap d = Inr (coluna_pais d, t) \<and>
        list_all (\<lambda>kv. \<not> isna2 (fst kv)) t \<and>
        df_treemap (sem_nulo (campo_pais d) cargo d) = df_treemap d"
  proof -
    let ?t = "gb_mean (groupby isna2 (map (\<lambda>r. (campo_pais d r, cargo r)) (rows d))
      (map usd (rows d)))"
    have a: "df_treemap d = Inr (coluna_pais d, ?t)" by (rule df_treemap_campo [OF assms])
    have "agregado isna2 (\<lambda>r. (campo_pais d r, cargo r)) (\<lambda>g. mean (map usd g)) (rows d) ?t"
      by (rule agregado_gb_mean)
    then have b: "list_all (\<lambda>kv. \<not> isna2 (fst kv)) ?t" by (rule agregado_chaves)
    have "set colunas_abas \<subseteq> set (columns (sem_nulo (campo_pais d) cargo d))"
      using assms by simp
    then have "df_treemap (sem_nulo (campo_pais d) cargo d) = Inr (coluna_pais d, ?t)"
      by (simp add: df_treemap_campo gb_mean_sem_nulos del: not_None_eq)
    with a b show ?thesis by simp
  qed
  show "\<exists>t. df_sun d = Inr t \<and>
        list_all (\<lambda>kv. \<not> isna2 (fst kv)) t \<and>
        df_sun (sem_nulo senioridade contrato d) = df_sun d"
  proof -
    let ?t = "gb_size (groupby isna2 (map (\<lambda>r. (senioridade r, contrato r)) (rows d)) (rows d))"
    have a: "df_sun d = Inr ?t" by (rule df_sun_eq [OF c(3,4)])
    have "agregado isna2 (\<lambda>r. (senioridade r, contrato r)) length (rows d) ?t"
      by (rule agregado_gb_size)
    then have b: "list_all (\<lambda>kv. \<not> isna2 (fst kv)) ?t" by (rule agregado_chaves)
    have "df_sun (sem_nulo senioridade contrato d) = Inr ?t"
      by (simp add: df_sun_eq c gb_size_sem_nulos del: not_None_eq)
    with a b show ?thesis by simp
  qed
  show "\<exists>t m. media_sen_con d = Inr t \<and> piv d = Inr m \<and>
        list_all (\<lambda>kv. \<not> isna2 (fst kv)) t \<and>
        None \<notin> set (m_index m) \<and> None \<notin> set (m_columns m) \<and>
        piv (sem_nulo senioridade contrato d) = piv d"
  proof -
    let ?t = "gb_mean (groupby isna2 (map (\<lambda>r. (senioridade r, contrato r)) (rows d))
      (map usd (rows d)))"
    have a: "media_sen_con d = Inr ?t" by (rule media_sen_con_eq [OF c(3,4,2)])
    have ag: "agregado isna2 (\<lambda>r. (senioridade r, contrato r)) (\<lambda>g. mean (map usd g)) (rows d) ?t"
      by (rule agregado_gb_mean)
    then have b: "list_all (\<lambda>kv. \<not> isna2 (fst kv)) ?t" by (rule agregado_chaves)
    from ag have "distinct (map fst ?t)" by (simp add: agregado_def)
    then obtain m where m: "pivot ?t = Inr m" using pivot_distinct by blast
    then have p: "piv d = Inr m" by (simp add: piv_def a)
    have "media_sen_con (sem_nulo senioridade contrato d) = Inr ?t"
      by (simp add: media_sen_con_eq c gb_mean_sem_nulos del: not_None_eq)
    then have i: "piv (sem_nulo senioridade contrato d) = piv d"
      by (simp add: piv_def a)
    from a p b pivot_rotulos [OF m b] i show ?thesis by blast
  qed
  show "\<exists>t5 t. top5_cargos d = Inr t5 \<and> df_linha d = Inr t \<and>
        list_all (\<lambda>kv. \<not> isna2 (fst kv)) t \<and>
        agregado isna2 (\<lambda>r. (ano r, cargo r)) (\<lambda>g. median (map usd g))
          (filter (\<lambda>r. ano r \<noteq> None \<and> cargo r \<noteq> None)
            (filter (\<lambda>r. cargo r \<in> set t5) (rows d))) t"
  proof -
    obtain t5 where t5: "top5_cargos d = Inr t5" using top5_cargos_eq [OF c(1)] by blast
    define rs where "rs = filter (\<lambda>r. cargo r \<in> set t5) (rows d)"
    define t where "t = gb_median (groupby isna2 (map (\<lambda>r. (ano r, cargo r)) rs) (map usd rs))"
    have a: "df_linha d = Inr t"
      unfolding t_def rs_def by (rule df_linha_eq [OF c(1,5,2) t5])
    have ag: "agregado isna2 (\<lambda>r. (ano r, cargo r)) (\<lambda>g. median (map usd g)) rs t"
      unfolding t_def by (rule agregado_gb_median)
    then have b: "list_all (\<lambda>kv. \<not> isna2 (fst kv)) t" by (rule agregado_chaves)
    from ag have "agregado isna2 (\<lambda>r. (ano r, cargo r)) (\<lambda>g. median (map usd g))
        (filter (\<lambda>r. \<not> isna2 (ano r, cargo r)) rs) t"
      by (rule agregado_sem_nulos)
    then have "agregado isna2 (\<lambda>r. (ano r, cargo r)) (\<lambda>g. median (map usd g))
        (filter (\<lambda>r. ano r \<noteq> None \<and> cargo r \<noteq> None) rs) t"
      unfolding isna2_filter .
    with t5 a b show ?thesis unfolding rs_def by blast
  qed
  fix sel
  show "\<exists>t. df_anim d sel = Inr t \<and>
        list_all (\<lambda>kv. \<not> isna2 (fst kv)) t \<and>
        df_anim (sem_nulo ano residencia_iso3 d) sel = df_anim d sel"
  proof -
    define rs where "rs = filter (\<lambda>r. cargo r \<noteq> None \<and> cargo r = sel) (rows d)"
    define t where "t = gb_mean (groupby isna2 (map (\<lambda>r. (ano r, residencia_iso3 r)) rs)
      (map usd rs))"
    have a: "df_anim d sel = Inr t"
      unfolding t_def rs_def by (rule df_anim_eq [OF c(1,5,6,2)])
    have "agregado isna2 (\<lambda>r. (ano r, residencia_iso3 r)) (\<lambda>g. mean (map usd g)) rs t"
      unfolding t_def by (rule agregado_gb_mean)
    then have b: "list_all (\<lambda>kv. \<not> isna2 (fst kv)) t" by (rule agregado_chaves)
    have f: "filter (\<lambda>r. cargo r \<noteq> None \<and> cargo r = sel)
        (filter (\<lambda>r. ano r \<noteq> None \<and> residencia_iso3 r \<noteq> None) (rows d)) =
      filter (\<lambda>r. ano r \<noteq> None \<and> residencia_iso3 r \<noteq> None) rs"
      unfolding rs_def filter_filter by (rule filter_cong) auto
    have "df_anim (sem_nulo ano residencia_iso3 d) sel = Inr t"
      unfolding t_def gb_mean_sem_nulos [of ano residencia_iso3 rs usd, symmetric]
      unfolding f [symmetric]
      by (rule df_anim_eq [of "sem_nulo ano residencia_iso3 d" sel, unfolded sem_nulo_simps])
        (simp_all add: c)
    with a b show ?thesis by simp
  qed
qed

lemma colunas_nulos: "set colunas_abas \<subseteq> set (columns df_nulos)"
  by (simp add: colunas_abas_def df_nulos_def colunas_csv_def)

lemma df_treemap_nulos:
  "df_treemap df_nulos =
     Inr (''residencia_iso3'',
          [((Some ''BRA'', Some ''Analyst''), Some 50000),
           ((Some ''USA'', Some ''Data Scientist''), Some 130000)])"
  by (simp add: df_treemap_def coluna_pais_def coluna_def df_nulos_def colunas_csv_def
      registro_exemplo_def gb_mean_def groupby_def isna2_def mean_def)

lemma df_sun_nulos: "df_sun df_nulos = Inr [((Some ''senior'', Some ''integral''), 5)]"
  by (simp add: df_sun_def coluna_def df_nulos_def colunas_csv_def
      registro_exemplo_def gb_size_def groupby_def isna2_def)

lemma piv_nulos:
  "piv df_nulos =
     Inr \<lparr>m_index = [Some ''senior''], m_columns = [Some ''integral''],
          m_values = [[Some 111000]]\<rparr>"
  by (simp add: piv_def media_sen_con_def coluna_def df_nulos_def colunas_csv_def
      registro_exemplo_def gb_mean_def groupby_def isna2_def mean_def pivot_def)

lemma df_linha_nulos:
  "df_linha df_nulos =
     Inr [((Some 2023, Some ''Data Scientist''), Some 150000),
          ((Some 2024, Some ''Analyst''), Some 60000)]"
  by (simp add: df_linha_def top5_cargos_def coluna_def df_nulos_def colunas_csv_def
      registro_exemplo_def gb_median_def groupby_def isna2_def median_def value_counts_def
      nlargest_count_def sort_desc_def dropna_def isin_def bool_index_def)

lemma df_anim_nulos:
  "df_anim df_nulos (Some ''Data Scientist'') = Inr [((Some 2023, Some ''USA''), Some 150000)]"
  by (simp add: df_anim_def coluna_def df_nulos_def colunas_csv_def
      registro_exemplo_def gb_mean_def groupby_def isna2_def mean_def bool_index_def)

theorem groupby_exclui_chave_nula_witness:
  "set colunas_abas \<subseteq> set (columns df_nulos) \<and>
   length (rows df_nulos) = 6 \<and>
   length (rows (sem_nulo senioridade contrato df_nulos)) = 5 \<and>
   df_treemap (sem_nulo (campo_pais df_nulos) cargo df_nulos) =
     Inr (''residencia_iso3'',
          [((Some ''BRA'', Some ''Analyst''), Some 50000),
           ((Some ''USA'', Some ''Data Scientist''), Some 130000)]) \<and>
   df_sun (sem_nulo senioridade contrato df_nulos) =
     Inr [((Some ''senior'', Some ''integral''), 5)] \<and>
   piv (sem_nulo senioridade contrato df_nulos) =
     Inr \<lparr>m_index = [Some ''senior''], m_columns = [Some ''integral''],
          m_values = [[Some 111000]]\<rparr> \<and>
   df_linha df_nulos =
     Inr [((Some 2023, Some ''Data Scientist''), Some 150000),
          ((Some 2024, Some ''Analyst''), Some 60000)] \<and>
   df_anim (sem_nulo ano residencia_iso3 df_nulos) (Some ''Data Scientist'') =
     Inr [((Some 2023, Some ''USA''), Some 150000)]"
proof -
  note t = groupby_exclui_chave_nula [OF colunas_nulos]
  have n: "length (rows df_nulos) = 6"
    "length (rows (sem_nulo senioridade contrato df_nulos)) = 5"
    by (simp_all add: df_nulos_def sem_nulo_def registro_exemplo_def)
  from t have "df_treemap (sem_nulo (campo_pais df_nulos) cargo df_nulos) = df_treemap df_nulos"
    by (elim conjE exE)
  then have a: "df_treemap (sem_nulo (campo_pais df_nulos) cargo df_nulos) =
     Inr (''residencia_iso3'',
          [((Some ''BRA'', Some ''Analyst''), Some 50000),
           ((Some ''USA'', Some ''Data Scientist''), Some 130000)])"
    by (simp only: df_treemap_nulos)
  from t have "df_sun (sem_nulo senioridade contrato df_nulos) = df_sun df_nulos"
    by (elim conjE exE)
  then have b: "df_sun (sem_nulo senioridade contrato df_nulos) =
     Inr [((Some ''senior'', Some ''integral''), 5)]"
    by (simp only: df_sun_nulos)
  from t have "piv (sem_nulo senioridade contrato df_nulos) = piv df_nulos"
    by (elim conjE exE)
  then have c: "piv (sem_nulo senioridade contrato df_nulos) =
     Inr \<lparr>m_index = [Some ''senior''], m_columns = [Some ''integral''],
          m_values = [[Some 111000]]\<rparr>"
    by (simp only: piv_nulos)
  from t have "\<forall>sel. \<exists>t. df_anim df_nulos sel = Inr t \<and>
        list_all (\<lambda>kv. \<not> isna2 (fst kv)) t \<and>
        df_anim (sem_nulo ano residencia_iso3 df_nulos) sel = df_anim df_nulos sel"
    by (elim conjE exE)
  then have "df_anim (sem_nulo ano residencia_iso3 df_nulos) (Some ''Data Scientist'') =
      df_anim df_nulos (Some ''Data Scientist'')"
    by blast
  then have e: "df_anim (sem_nulo ano residencia_iso3 df_nulos) (Some ''Data Scientist'') =
     Inr [((Some 2023, Some ''USA''), Some 150000)]"
    by (simp only: df_anim_nulos)
  from colunas_nulos n a b c df_linha_nulos e show ?thesis by (intro conjI)
qed


end
